theory Spec2Isabelle
  imports Complex_Main
begin

section \<open>Data model\<close>

text \<open>
  The program (\<^verbatim>\<open>src/app/main.py\<close>) sequences calls to external collaborators
  (pydub, librosa, mutagen, the \<^verbatim>\<open>rubberband\<close> binary) and to the operating system.
  Its state is the file system plus the chronological record of the calls it made.
  A path denotes a file by its string; Python floats are modelled as reals, so
  rounding, infinities and NaN are outside the model.
\<close>

type_synonym path = string

text \<open>
  Exceptions. \<open>ValueError\<close> is the only exception the program raises itself;
  \<open>FileNotFoundError\<close> and \<open>CalledProcessError\<close> come from \<^verbatim>\<open>os\<close> and
  \<^verbatim>\<open>subprocess.run(check=True)\<close>, \<open>IndexError\<close> from \<^verbatim>\<open>bpm[0]\<close>, and
  \<open>ExternalError\<close> carries the class name of whatever a library raises.
\<close>

datatype exn =
    ValueError string
  | FileNotFoundError
  | CalledProcessError int
  | IndexError
  | ExternalError string

text \<open>The status lines printed by the program, by content rather than by text.\<close>

datatype msg =
    MetadataCopied path path
  | Converted path
  | OriginalBPM real
  | ChangeFactor real
  | Stretched path
  | Exported path
  | Loading path

datatype event =
    FromFile "string option" path
  | ExportTo path string
  | LibrosaLoad path
  | BeatTrack
  | Run "string list"
  | Rename path path
  | Exists path
  | Remove path
  | ID3Load path
  | ID3Delete path
  | ID3Save path
  | ListDir path
  | Print msg

record 'c world =
  files :: "path \<rightharpoonup> 'c"
  trace :: "event list"

text \<open>
  The collaborators are parameters of the model: \<open>'c\<close> is the content of a file,
  \<open>'a\<close> a decoded pydub segment, \<open>'y\<close> a librosa waveform, \<open>'t\<close> an ID3 tag set.
  Each reads the content found at a path (\<open>None\<close> when no file is there) and fails
  with a class name or returns its value. A child process may rewrite the whole file
  system; \<open>spawn\<close> gives \<open>None\<close> when the executable cannot be started, else the
  exit status and the file system the process leaves behind.
\<close>

record ('c, 'a, 'y, 't) env =
  from_file :: "string option \<Rightarrow> 'c option \<Rightarrow> string + 'a"
  export_as :: "string \<Rightarrow> 'a \<Rightarrow> string + 'c"
  librosa_load :: "'c option \<Rightarrow> string + ('y \<times> nat)"
  beat_track :: "'y \<Rightarrow> nat \<Rightarrow> string + (real list \<times> nat list)"
  spawn :: "string list \<Rightarrow> (path \<rightharpoonup> 'c) \<Rightarrow> (int \<times> (path \<rightharpoonup> 'c)) option"
  str_float :: "real \<Rightarrow> string"
  id3_load :: "'c option \<Rightarrow> string + 't"
  id3_delete :: "'t \<Rightarrow> 'c option \<Rightarrow> string + 'c"
  id3_save :: "'t \<Rightarrow> 'c option \<Rightarrow> string + 'c"
  listdir :: "path \<Rightarrow> (path \<rightharpoonup> 'c) \<Rightarrow> string + string list"

section \<open>Effects: state passing with exceptions\<close>

type_synonym ('x, 'c) io = "'c world \<Rightarrow> (exn + 'x) \<times> 'c world"

definition return_io :: "'x \<Rightarrow> ('x, 'c) io" where
  "return_io x w = (Inr x, w)"

definition raise_io :: "exn \<Rightarrow> ('x, 'c) io" where
  "raise_io e w = (Inl e, w)"

definition bind_io :: "('x, 'c) io \<Rightarrow> ('x \<Rightarrow> ('z, 'c) io) \<Rightarrow> ('z, 'c) io" where
  "bind_io m k w = (case m w of (Inl e, w') \<Rightarrow> (Inl e, w') | (Inr x, w') \<Rightarrow> k x w')"

definition log :: "event \<Rightarrow> (unit, 'c) io" where
  "log ev w = (Inr (), w\<lparr>trace := trace w @ [ev]\<rparr>)"

text \<open>\<^verbatim>\<open>try: ... except Exception: pass\<close>\<close>

definition try_except_pass :: "(unit, 'c) io \<Rightarrow> (unit, 'c) io" where
  "try_except_pass m w = (case m w of (Inl e, w') \<Rightarrow> (Inr (), w') | (Inr x, w') \<Rightarrow> (Inr (), w'))"

definition lib :: "string + 'x \<Rightarrow> ('x, 'c) io" where
  "lib r = (case r of Inl e \<Rightarrow> raise_io (ExternalError e) | Inr x \<Rightarrow> return_io x)"

definition print :: "msg \<Rightarrow> (unit, 'c) io" where
  "print m = log (Print m)"

fun for_each :: "'x list \<Rightarrow> ('x \<Rightarrow> (unit, 'c) io) \<Rightarrow> (unit, 'c) io" where
  "for_each [] body = return_io ()"
| "for_each (x # xs) body = bind_io (body x) (\<lambda>_. for_each xs body)"

section \<open>Python and library primitives\<close>

text \<open>Truthiness of an optional number: \<^verbatim>\<open>None\<close>, \<^verbatim>\<open>0\<close> and \<^verbatim>\<open>0.0\<close> are falsy.\<close>

definition truthy :: "real option \<Rightarrow> bool" where
  "truthy v = (case v of None \<Rightarrow> False | Some x \<Rightarrow> x \<noteq> 0)"

text \<open>An optional argument is supplied when it is not \<^verbatim>\<open>None\<close>.\<close>

definition supplied :: "real option \<Rightarrow> bool" where
  "supplied v = (v \<noteq> None)"

text \<open>
  The data model of the specification: a tempo and a stretch factor are positive
  numbers. An optional argument is valid when it is absent or positive.
\<close>

definition valid_arg :: "real option \<Rightarrow> bool" where
  "valid_arg v = (case v of None \<Rightarrow> True | Some x \<Rightarrow> 0 < x)"

text \<open>\<^verbatim>\<open>str\<close> of an optional float: \<^verbatim>\<open>str(None)\<close> is \<^verbatim>\<open>'None'\<close>.\<close>

definition py_str :: "('c, 'a, 'y, 't) env \<Rightarrow> real option \<Rightarrow> string" where
  "py_str E v = (case v of None \<Rightarrow> ''None'' | Some x \<Rightarrow> str_float E x)"

definition digit_char :: "nat \<Rightarrow> char" where
  "digit_char d = char_of (48 + d)"

function str_nat :: "nat \<Rightarrow> string" where
  "str_nat n = (if n < 10 then [digit_char n] else str_nat (n div 10) @ [digit_char (n mod 10)])"
  by pat_completeness auto
termination
  by (relation "measure (\<lambda>n. n)") auto

declare str_nat.simps [simp del]

text \<open>\<^verbatim>\<open>str\<close> of an integer, as the f-string \<^verbatim>\<open>f"_{bpm}BPM.mp3"\<close> formats it.\<close>

definition str_int :: "int \<Rightarrow> string" where
  "str_int i = (if i < 0 then ''-'' @ str_nat (nat (- i)) else str_nat (nat i))"

text \<open>
  \<^verbatim>\<open>s.replace(old, new)\<close>: every occurrence, left to right, without overlap.
  With an empty \<open>old\<close> Python puts \<open>new\<close> before every character and at the end.
\<close>

function str_replace :: "string \<Rightarrow> string \<Rightarrow> string \<Rightarrow> string" where
  "str_replace old new s =
     (if old = [] then new @ concat (map (\<lambda>c. c # new) s)
      else if s = [] then []
      else if take (length old) s = old
        then new @ str_replace old new (drop (length old) s)
        else hd s # str_replace old new (tl s))"
  by pat_completeness auto
termination
  by (relation "measure (\<lambda>(old, new, s). length s)") auto

declare str_replace.simps [simp del]

text \<open>\<^verbatim>\<open>s.endswith(suf)\<close>\<close>

definition endswith :: "string \<Rightarrow> string \<Rightarrow> bool" where
  "endswith s suf = (length suf \<le> length s \<and> drop (length s - length suf) s = suf)"

text \<open>\<^verbatim>\<open>sub in s\<close>\<close>

fun contains :: "string \<Rightarrow> string \<Rightarrow> bool" where
  "contains sub [] = (sub = [])"
| "contains sub (c # cs) = (take (length sub) (c # cs) = sub \<or> contains sub cs)"

text \<open>\<^verbatim>\<open>os.path.join(a, b)\<close> on POSIX, for two components.\<close>

definition os_path_join :: "path \<Rightarrow> path \<Rightarrow> path" where
  "os_path_join a b =
     (if take 1 b = ''/'' then b
      else if a = [] \<or> endswith a ''/'' then a @ b
      else a @ ''/'' @ b)"

definition os_path_exists :: "path \<Rightarrow> (bool, 'c) io" where
  "os_path_exists p = bind_io (log (Exists p)) (\<lambda>_ w. return_io (files w p \<noteq> None) w)"

definition os_remove :: "path \<Rightarrow> (unit, 'c) io" where
  "os_remove p = bind_io (log (Remove p)) (\<lambda>_ w.
     case files w p of
       None \<Rightarrow> raise_io FileNotFoundError w
     | Some c \<Rightarrow> (Inr (), w\<lparr>files := (files w)(p := None)\<rparr>))"

definition os_rename :: "path \<Rightarrow> path \<Rightarrow> (unit, 'c) io" where
  "os_rename src dst = bind_io (log (Rename src dst)) (\<lambda>_ w.
     case files w src of
       None \<Rightarrow> raise_io FileNotFoundError w
     | Some c \<Rightarrow> (Inr (), w\<lparr>files := ((files w)(src := None))(dst \<mapsto> c)\<rparr>))"

definition os_listdir :: "('c, 'a, 'y, 't) env \<Rightarrow> path \<Rightarrow> (string list, 'c) io" where
  "os_listdir E p = bind_io (log (ListDir p)) (\<lambda>_ w. lib (listdir E p (files w)) w)"

text \<open>\<^verbatim>\<open>subprocess.run(argv, check=True)\<close>: waits for the child, raises on a non-zero status.\<close>

definition subprocess_run_check :: "('c, 'a, 'y, 't) env \<Rightarrow> string list \<Rightarrow> (unit, 'c) io" where
  "subprocess_run_check E argv = bind_io (log (Run argv)) (\<lambda>_ w.
     case spawn E argv (files w) of
       None \<Rightarrow> raise_io FileNotFoundError w
     | Some (rc, fs') \<Rightarrow>
         (if rc \<noteq> 0 then Inl (CalledProcessError rc) else Inr (), w\<lparr>files := fs'\<rparr>))"

definition AudioSegment_from_file ::
  "('c, 'a, 'y, 't) env \<Rightarrow> string option \<Rightarrow> path \<Rightarrow> ('a, 'c) io" where
  "AudioSegment_from_file E fmt p =
     bind_io (log (FromFile fmt p)) (\<lambda>_ w. lib (from_file E fmt (files w p)) w)"

definition AudioSegment_export ::
  "('c, 'a, 'y, 't) env \<Rightarrow> 'a \<Rightarrow> path \<Rightarrow> string \<Rightarrow> (unit, 'c) io" where
  "AudioSegment_export E audio p fmt = bind_io (log (ExportTo p fmt)) (\<lambda>_.
     bind_io (lib (export_as E fmt audio)) (\<lambda>c w.
       (Inr (), w\<lparr>files := (files w)(p \<mapsto> c)\<rparr>)))"

definition ID3 :: "('c, 'a, 'y, 't) env \<Rightarrow> path \<Rightarrow> ('t, 'c) io" where
  "ID3 E p = bind_io (log (ID3Load p)) (\<lambda>_ w. lib (id3_load E (files w p)) w)"

definition ID3_delete :: "('c, 'a, 'y, 't) env \<Rightarrow> 't \<Rightarrow> path \<Rightarrow> (unit, 'c) io" where
  "ID3_delete E tags p = bind_io (log (ID3Delete p)) (\<lambda>_ w.
     bind_io (lib (id3_delete E tags (files w p))) (\<lambda>c w.
       (Inr (), w\<lparr>files := (files w)(p \<mapsto> c)\<rparr>)) w)"

definition ID3_save :: "('c, 'a, 'y, 't) env \<Rightarrow> 't \<Rightarrow> path \<Rightarrow> (unit, 'c) io" where
  "ID3_save E tags p = bind_io (log (ID3Save p)) (\<lambda>_ w.
     bind_io (lib (id3_save E tags (files w p))) (\<lambda>c w.
       (Inr (), w\<lparr>files := (files w)(p \<mapsto> c)\<rparr>)) w)"

section \<open>The program\<close>

definition copyMetadata :: "('c, 'a, 'y, 't) env \<Rightarrow> path \<Rightarrow> path \<Rightarrow> (unit, 'c) io" where
  "copyMetadata E originalFile newFile =
     bind_io (ID3 E originalFile) (\<lambda>original_tags.
     bind_io (try_except_pass
               (bind_io (ID3 E newFile) (\<lambda>new_tags. ID3_delete E new_tags newFile))) (\<lambda>_.
     bind_io (ID3_save E original_tags newFile) (\<lambda>_.
     print (MetadataCopied originalFile newFile))))"

definition detectBPM :: "('c, 'a, 'y, 't) env \<Rightarrow> path \<Rightarrow> (real, 'c) io" where
  "detectBPM E filePath =
     bind_io (log (LibrosaLoad filePath)) (\<lambda>_ w.
     bind_io (lib (librosa_load E (files w filePath))) (\<lambda>(y, sr).
     bind_io (log BeatTrack) (\<lambda>_.
     bind_io (lib (beat_track E y sr)) (\<lambda>(bpm, beats).
       case bpm of [] \<Rightarrow> raise_io IndexError | b # _ \<Rightarrow> return_io b))) w)"

definition convertToWav :: "('c, 'a, 'y, 't) env \<Rightarrow> path \<Rightarrow> path \<Rightarrow> (unit, 'c) io" where
  "convertToWav E inputPath outputPath =
     bind_io (AudioSegment_from_file E None inputPath) (\<lambda>audio.
     AudioSegment_export E audio outputPath ''wav'')"

definition rubberband_argv ::
  "('c, 'a, 'y, 't) env \<Rightarrow> path \<Rightarrow> path \<Rightarrow> real option \<Rightarrow> string list" where
  "rubberband_argv E inputWav outputWav applyFactor =
     [''rubberband'', ''-t'', py_str E applyFactor, ''--pitch'', ''0'', ''--crisp'', ''5'',
      inputWav, outputWav]"

definition stretchAudioWithRubberband ::
  "('c, 'a, 'y, 't) env \<Rightarrow> path \<Rightarrow> path \<Rightarrow> real option \<Rightarrow> (unit, 'c) io" where
  "stretchAudioWithRubberband E inputWav outputWav applyFactor =
     subprocess_run_check E (rubberband_argv E inputWav outputWav applyFactor)"

definition msg_neither :: string where
  "msg_neither = ''Either 'toBPM' or 'factor' must be provided.''"

definition msg_both :: string where
  "msg_both = ''Only one of 'toBPM' or 'factor' should be provided.''"

definition tempInp :: path where
  "tempInp = ''TemporalInp.wav''"

definition tempOut :: path where
  "tempOut = ''TemporalOut.wav''"

text \<open>Lines 93 to 98: re-encode to MP3, or move the stretched WAV to the output path.\<close>

definition write_output :: "('c, 'a, 'y, 't) env \<Rightarrow> path \<Rightarrow> (unit, 'c) io" where
  "write_output E outputAudio =
     (if endswith outputAudio ''.mp3''
      then bind_io (AudioSegment_from_file E (Some ''wav'') tempOut) (\<lambda>stretched.
           AudioSegment_export E stretched outputAudio ''mp3'')
      else os_rename tempOut outputAudio)"

text \<open>Lines 100 to 104: remove each temporary file if it exists.\<close>

definition remove_temps :: "(unit, 'c) io" where
  "remove_temps =
     bind_io (os_path_exists tempInp) (\<lambda>ex.
     bind_io (if ex then os_remove tempInp else return_io ()) (\<lambda>_.
     bind_io (os_path_exists tempOut) (\<lambda>ex.
     (if ex then os_remove tempOut else return_io ()))))"

definition changeBPM ::
  "('c, 'a, 'y, 't) env \<Rightarrow> path \<Rightarrow> path \<Rightarrow> real option \<Rightarrow> real option \<Rightarrow> (unit, 'c) io" where
  "changeBPM E inputAudio outputAudio toBPM factor =
     (if \<not> truthy toBPM \<and> \<not> truthy factor then raise_io (ValueError msg_neither)
      else if truthy toBPM \<and> truthy factor then raise_io (ValueError msg_both)
      else
        bind_io (convertToWav E inputAudio tempInp) (\<lambda>_.
        bind_io (print (Converted inputAudio)) (\<lambda>_.
        bind_io (case toBPM of
                   None \<Rightarrow> return_io factor
                 | Some b \<Rightarrow>
                     if b \<noteq> 0 then
                       bind_io (detectBPM E tempInp) (\<lambda>originalBPM.
                       bind_io (print (OriginalBPM originalBPM)) (\<lambda>_.
                       bind_io (print (ChangeFactor (originalBPM / b))) (\<lambda>_.
                       return_io (Some (originalBPM / b)))))
                     else return_io factor) (\<lambda>factor.
        bind_io (stretchAudioWithRubberband E tempInp tempOut factor) (\<lambda>_.
        bind_io (print (Stretched tempOut)) (\<lambda>_.
        bind_io (write_output E outputAudio) (\<lambda>_.
        bind_io remove_temps (\<lambda>_.
        print (Exported outputAudio)))))))))"

definition outputSong_of :: "int \<Rightarrow> path \<Rightarrow> path" where
  "outputSong_of bpm inputSong = str_replace ''.mp3'' (''_'' @ str_int bpm @ ''BPM.mp3'') inputSong"

definition main :: "('c, 'a, 'y, 't) env \<Rightarrow> int \<Rightarrow> real option \<Rightarrow> path \<Rightarrow> (unit, 'c) io" where
  "main E bpm factor inputSong =
     bind_io (print (Loading inputSong)) (\<lambda>_.
     bind_io (if truthy factor then changeBPM E inputSong (outputSong_of bpm inputSong) None factor
              else if bpm \<noteq> 0 then
                changeBPM E inputSong (outputSong_of bpm inputSong) (Some (real_of_int bpm)) None
              else return_io ()) (\<lambda>_.
     copyMetadata E inputSong (outputSong_of bpm inputSong)))"

text \<open>The script body (lines 134 to 138), after the arguments are parsed.\<close>

definition script :: "('c, 'a, 'y, 't) env \<Rightarrow> path \<Rightarrow> int \<Rightarrow> (unit, 'c) io" where
  "script E folder bpm =
     bind_io (os_listdir E folder) (\<lambda>entries.
     for_each entries (\<lambda>file. main E bpm None (os_path_join folder file)))"

section \<open>Blocks of \<open>changeBPM\<close> and trace predicates\<close>

text \<open>
  Lines 77 to 87 of \<open>changeBPM\<close>: conversion to the temporary WAV and the choice of
  the factor. \<open>changeBPM_blocks\<close> below shows that \<open>changeBPM\<close> is this block, the
  stretcher, and \<open>finish\<close>, in that order.
\<close>

definition prepare ::
  "('c, 'a, 'y, 't) env \<Rightarrow> path \<Rightarrow> real option \<Rightarrow> real option \<Rightarrow> (real option, 'c) io" where
  "prepare E inputAudio toBPM factor =
     bind_io (convertToWav E inputAudio tempInp) (\<lambda>_.
     bind_io (print (Converted inputAudio)) (\<lambda>_.
       case toBPM of
         None \<Rightarrow> return_io factor
       | Some b \<Rightarrow>
           if b \<noteq> 0 then
             bind_io (detectBPM E tempInp) (\<lambda>originalBPM.
             bind_io (print (OriginalBPM originalBPM)) (\<lambda>_.
             bind_io (print (ChangeFactor (originalBPM / b))) (\<lambda>_.
             return_io (Some (originalBPM / b)))))
           else return_io factor))"

text \<open>Lines 91 to 106 of \<open>changeBPM\<close>: everything after the stretcher.\<close>

definition finish :: "('c, 'a, 'y, 't) env \<Rightarrow> path \<Rightarrow> (unit, 'c) io" where
  "finish E outputAudio =
     bind_io (print (Stretched tempOut)) (\<lambda>_.
     bind_io (write_output E outputAudio) (\<lambda>_.
     bind_io remove_temps (\<lambda>_.
     print (Exported outputAudio))))"

text \<open>The events a computation appends to the trace all satisfy \<open>P\<close>.\<close>

definition adds :: "(event \<Rightarrow> bool) \<Rightarrow> ('x, 'c) io \<Rightarrow> bool" where
  "adds P m = (\<forall>w. \<exists>evs. trace (snd (m w)) = trace w @ evs \<and> list_all P evs)"

text \<open>Every exception a computation can end with satisfies \<open>Q\<close>.\<close>

definition raises_only :: "(exn \<Rightarrow> bool) \<Rightarrow> ('x, 'c) io \<Rightarrow> bool" where
  "raises_only Q m = (\<forall>w. case fst (m w) of Inl e \<Rightarrow> Q e | Inr x \<Rightarrow> True)"

fun is_Run :: "event \<Rightarrow> bool" where
  "is_Run (Run argv) = True"
| "is_Run ev = False"

fun is_detection :: "event \<Rightarrow> bool" where
  "is_detection (LibrosaLoad p) = True"
| "is_detection BeatTrack = True"
| "is_detection ev = False"

fun is_cleanup :: "event \<Rightarrow> bool" where
  "is_cleanup (Exists p) = True"
| "is_cleanup (Remove p) = True"
| "is_cleanup ev = False"

section \<open>A concrete environment\<close>

text \<open>
  A small world to run the program in: a file is its audio payload and its optional
  tag set. Decoding gives the payload, encoding gives an untagged file, the tempo
  detector always answers 120, and \<^verbatim>\<open>rubberband\<close> writes a marked copy of its input
  to its output path.
\<close>

type_synonym demo_file = "string \<times> string option"

definition demo_spawn ::
  "string list \<Rightarrow> (path \<rightharpoonup> demo_file) \<Rightarrow> (int \<times> (path \<rightharpoonup> demo_file)) option" where
  "demo_spawn argv fs =
     (case rev argv of
        outp # inp # rest \<Rightarrow>
          (case fs inp of
             None \<Rightarrow> Some (1, fs)
           | Some (a, t) \<Rightarrow> Some (0, fs(outp \<mapsto> (''stretched '' @ a, None))))
      | _ \<Rightarrow> Some (2, fs))"

definition demo_env :: "(demo_file, string, string, string) env" where
  "demo_env = \<lparr>
     from_file = (\<lambda>fmt c. case c of None \<Rightarrow> Inl ''FileNotFoundError'' | Some (a, t) \<Rightarrow> Inr a),
     export_as = (\<lambda>fmt a. Inr (a, None)),
     librosa_load = (\<lambda>c. case c of None \<Rightarrow> Inl ''FileNotFoundError'' | Some (a, t) \<Rightarrow> Inr (a, 22050)),
     beat_track = (\<lambda>y sr. Inr ([120], [])),
     spawn = demo_spawn,
     str_float = (\<lambda>x. if x = 2 then ''2.0'' else ''1.2''),
     id3_load = (\<lambda>c. case c of None \<Rightarrow> Inl ''MutagenError''
                      | Some (a, None) \<Rightarrow> Inl ''ID3NoHeaderError''
                      | Some (a, Some t) \<Rightarrow> Inr t),
     id3_delete = (\<lambda>t c. case c of None \<Rightarrow> Inl ''MutagenError'' | Some (a, old) \<Rightarrow> Inr (a, None)),
     id3_save = (\<lambda>t c. case c of None \<Rightarrow> Inl ''MutagenError'' | Some (a, old) \<Rightarrow> Inr (a, Some t)),
     listdir = (\<lambda>p fs. if p = ''music'' then Inr [''a.mp3'', ''b.mp3'', ''c.mp3'']
                       else Inl ''FileNotFoundError'')
   \<rparr>"

text \<open>The same environment with no \<^verbatim>\<open>rubberband\<close> executable on the path.\<close>

definition no_rubberband_env :: "(demo_file, string, string, string) env" where
  "no_rubberband_env = demo_env\<lparr>spawn := (\<lambda>argv fs. None)\<rparr>"

definition demo_world :: "demo_file world" where
  "demo_world = \<lparr>
     files = [''song.mp3'' \<mapsto> (''mp3 audio'', Some ''tags''),
              ''song.wav'' \<mapsto> (''wav audio'', Some ''tags'')],
     trace = []
   \<rparr>"

text \<open>A world for the metadata copier: files with and without tags.\<close>

definition untagged_world :: "demo_file world" where
  "untagged_world = \<lparr>
     files = [''song.mp3'' \<mapsto> (''mp3 audio'', Some ''tags''),
              ''new.mp3'' \<mapsto> (''new audio'', None),
              ''old.mp3'' \<mapsto> (''old audio'', Some ''old tags''),
              ''bare.mp3'' \<mapsto> (''bare audio'', None)],
     trace = []
   \<rparr>"

text \<open>The concrete environment with a tag library that cannot delete tags.\<close>

definition locked_env :: "(demo_file, string, string, string) env" where
  "locked_env = demo_env\<lparr>id3_delete := (\<lambda>t c. Inl ''PermissionError'')\<rparr>"

text \<open>
  A world for the batch driver: the folder \<^verbatim>\<open>music\<close> lists three entries, the second of
  which cannot be read.
\<close>

definition batch_world :: "demo_file world" where
  "batch_world = \<lparr>
     files = [''music/a.mp3'' \<mapsto> (''a audio'', Some ''a tags''),
              ''music/c.mp3'' \<mapsto> (''c audio'', Some ''c tags'')],
     trace = []
   \<rparr>"

section \<open>Laws of the effect combinators\<close>

lemma bind_Inl: "m w = (Inl e, w') \<Longrightarrow> bind_io m k w = (Inl e, w')"
  by (simp add: bind_io_def)
lemma bind_Inr: "m w = (Inr x, w') \<Longrightarrow> bind_io m k w = k x w'"
  by (simp add: bind_io_def)
lemma bind_return [simp]: "bind_io (return_io x) k = k x"
  by (rule ext) (simp add: bind_io_def return_io_def)
lemma bind_raise [simp]: "bind_io (raise_io e) k = raise_io e"
  by (rule ext) (simp add: bind_io_def raise_io_def)
lemma bind_assoc: "bind_io (bind_io m k) h = bind_io m (\<lambda>x. bind_io (k x) h)"
  by (rule ext) (simp add: bind_io_def split: prod.splits sum.splits)
lemma bind_log: "bind_io (log ev) k w = k () (w\<lparr>trace := trace w @ [ev]\<rparr>)"
  by (simp add: bind_io_def log_def)
lemma bind_cases:
  assumes "bind_io m k w = (r, w')"
  obtains (fail) e where "m w = (Inl e, w')" "r = Inl e"
        | (ok) x w1 where "m w = (Inr x, w1)" "k x w1 = (r, w')"
  using assms by (auto simp: bind_io_def split: prod.splits sum.splits)

lemmas prim_defs = bind_io_def log_def lib_def raise_io_def return_io_def print_def

lemma ro_return: "raises_only Q (return_io x)"
  by (simp add: raises_only_def return_io_def)
lemma ro_raise: "Q e \<Longrightarrow> raises_only Q (raise_io e)"
  by (simp add: raises_only_def raise_io_def)
lemma ro_bind: "raises_only Q m \<Longrightarrow> (\<And>x. raises_only Q (k x)) \<Longrightarrow> raises_only Q (bind_io m k)"
  unfolding raises_only_def bind_io_def
  by (auto split: prod.splits sum.splits) (metis fst_conv old.sum.simps(5))+
lemma ro_print: "raises_only Q (print m)"
  by (simp add: raises_only_def prim_defs)
lemma ro_try: "raises_only Q (try_except_pass m)"
  by (auto simp: raises_only_def try_except_pass_def split: prod.splits sum.splits)
lemma ro_exists: "raises_only Q (os_path_exists p)"
  by (simp add: raises_only_def os_path_exists_def prim_defs)
lemma ro_remove: "Q FileNotFoundError \<Longrightarrow> raises_only Q (os_remove p)"
  by (auto simp: raises_only_def os_remove_def prim_defs split: option.splits)
lemma ro_rename: "Q FileNotFoundError \<Longrightarrow> raises_only Q (os_rename p q)"
  by (auto simp: raises_only_def os_rename_def prim_defs split: option.splits)
lemma ro_listdir: "(\<And>s. Q (ExternalError s)) \<Longrightarrow> raises_only Q (os_listdir E p)"
  by (auto simp: raises_only_def os_listdir_def prim_defs split: sum.splits)
lemma ro_run: "Q FileNotFoundError \<Longrightarrow> (\<And>rc. Q (CalledProcessError rc)) \<Longrightarrow> raises_only Q (subprocess_run_check E argv)"
  by (auto simp: raises_only_def subprocess_run_check_def prim_defs split: option.splits)
lemma ro_from_file: "(\<And>s. Q (ExternalError s)) \<Longrightarrow> raises_only Q (AudioSegment_from_file E fmt p)"
  by (auto simp: raises_only_def AudioSegment_from_file_def prim_defs split: sum.splits)
lemma ro_export: "(\<And>s. Q (ExternalError s)) \<Longrightarrow> raises_only Q (AudioSegment_export E a p fmt)"
  by (auto simp: raises_only_def AudioSegment_export_def prim_defs split: sum.splits)
lemma ro_ID3: "(\<And>s. Q (ExternalError s)) \<Longrightarrow> raises_only Q (ID3 E p)"
  by (auto simp: raises_only_def ID3_def prim_defs split: sum.splits)
lemma ro_ID3_save: "(\<And>s. Q (ExternalError s)) \<Longrightarrow> raises_only Q (ID3_save E t p)"
  by (auto simp: raises_only_def ID3_save_def prim_defs split: sum.splits)
lemma ro_detect: "(\<And>s. Q (ExternalError s)) \<Longrightarrow> Q IndexError \<Longrightarrow> raises_only Q (detectBPM E p)"
  by (auto simp: raises_only_def detectBPM_def prim_defs split: sum.splits prod.splits list.splits)

lemma ro_convert: "(\<And>s. Q (ExternalError s)) \<Longrightarrow> raises_only Q (convertToWav E p q)"
  unfolding convertToWav_def by (intro ro_bind ro_from_file ro_export)
lemma ro_copy: "(\<And>s. Q (ExternalError s)) \<Longrightarrow> raises_only Q (copyMetadata E p q)"
  unfolding copyMetadata_def by (intro ro_bind ro_ID3 ro_try ro_ID3_save ro_print)
lemma ro_if: "raises_only Q a \<Longrightarrow> raises_only Q b \<Longrightarrow> raises_only Q (if c then a else b)"
  by simp
lemma ro_prepare: "(\<And>s. Q (ExternalError s)) \<Longrightarrow> Q IndexError \<Longrightarrow> raises_only Q (prepare E inp t f)"
  unfolding prepare_def
  by (intro ro_bind ro_convert ro_print) (auto split: option.splits intro!: ro_bind ro_detect ro_print ro_return)
lemma ro_write_output: "(\<And>s. Q (ExternalError s)) \<Longrightarrow> Q FileNotFoundError \<Longrightarrow> raises_only Q (write_output E out)"
  unfolding write_output_def by (intro ro_if ro_bind ro_from_file ro_export ro_rename)
lemma ro_remove_temps: "raises_only Q (remove_temps :: (unit, 'c) io)"
  by (auto simp: raises_only_def remove_temps_def os_path_exists_def os_remove_def prim_defs split: option.splits)
lemma ro_finish: "(\<And>s. Q (ExternalError s)) \<Longrightarrow> Q FileNotFoundError \<Longrightarrow> raises_only Q (finish E out)"
  unfolding finish_def by (intro ro_bind ro_print ro_write_output ro_remove_temps)

lemma changeBPM_blocks:
  "truthy toBPM \<noteq> truthy factor \<Longrightarrow>
   changeBPM E inp out toBPM factor =
     bind_io (prepare E inp toBPM factor) (\<lambda>fac.
     bind_io (stretchAudioWithRubberband E tempInp tempOut fac) (\<lambda>_. finish E out))"
  unfolding changeBPM_def prepare_def finish_def
  by (auto simp: bind_assoc split: option.splits intro!: arg_cong2[where f=bind_io] ext)

lemma changeBPM_invalid:
  "truthy toBPM = truthy factor \<Longrightarrow>
   changeBPM E inp out toBPM factor = raise_io (ValueError (if truthy toBPM then msg_both else msg_neither))"
  unfolding changeBPM_def by auto

section \<open>Events added to the trace\<close>

lemma adds_return: "adds P (return_io x)"
  by (simp add: adds_def return_io_def)
lemma adds_raise: "adds P (raise_io e)"
  by (simp add: adds_def raise_io_def)
lemma adds_log: "P ev \<Longrightarrow> adds P (log ev)"
  by (simp add: adds_def log_def)
lemma adds_print: "P (Print m) \<Longrightarrow> adds P (print m)"
  by (simp add: print_def adds_log)
lemma adds_bind:
  assumes "adds P m" and "\<And>x. adds P (k x)"
  shows "adds P (bind_io m k)"
  unfolding adds_def
proof
  fix w
  from assms(1) obtain evs where m: "trace (snd (m w)) = trace w @ evs" "list_all P evs"
    unfolding adds_def by blast
  show "\<exists>evs. trace (snd (bind_io m k w)) = trace w @ evs \<and> list_all P evs"
  proof (cases "m w")
    case (Pair r w1)
    show ?thesis
    proof (cases r)
      case (Inl e)
      with Pair m show ?thesis by (auto simp: bind_io_def)
    next
      case (Inr x)
      from assms(2)[of x] obtain evs2 where
        k: "trace (snd (k x w1)) = trace w1 @ evs2" "list_all P evs2"
        unfolding adds_def by blast
      with Pair Inr m have "trace (snd (bind_io m k w)) = trace w @ (evs @ evs2)" "list_all P (evs @ evs2)"
        by (auto simp: bind_io_def)
      then show ?thesis by blast
    qed
  qed
qed
lemma adds_if: "adds P a \<Longrightarrow> adds P b \<Longrightarrow> adds P (if c then a else b)"
  by simp
lemma adds_try: "adds P m \<Longrightarrow> adds P (try_except_pass m)"
  unfolding adds_def try_except_pass_def
  by (auto split: prod.splits sum.splits) (metis snd_conv)+
lemma adds_exists: "P (Exists p) \<Longrightarrow> adds P (os_path_exists p)"
  by (simp add: adds_def os_path_exists_def prim_defs)
lemma adds_remove: "P (Remove p) \<Longrightarrow> adds P (os_remove p)"
  by (auto simp: adds_def os_remove_def prim_defs split: option.splits)
lemma adds_rename: "P (Rename p q) \<Longrightarrow> adds P (os_rename p q)"
  by (auto simp: adds_def os_rename_def prim_defs split: option.splits)
lemma adds_listdir: "P (ListDir p) \<Longrightarrow> adds P (os_listdir E p)"
  by (auto simp: adds_def os_listdir_def prim_defs split: sum.splits)
lemma adds_run: "P (Run argv) \<Longrightarrow> adds P (subprocess_run_check E argv)"
  by (auto simp: adds_def subprocess_run_check_def prim_defs split: option.splits)
lemma adds_from_file: "P (FromFile fmt p) \<Longrightarrow> adds P (AudioSegment_from_file E fmt p)"
  by (auto simp: adds_def AudioSegment_from_file_def prim_defs split: sum.splits)
lemma adds_export: "P (ExportTo p fmt) \<Longrightarrow> adds P (AudioSegment_export E a p fmt)"
  by (auto simp: adds_def AudioSegment_export_def prim_defs split: sum.splits)
lemma adds_ID3: "P (ID3Load p) \<Longrightarrow> adds P (ID3 E p)"
  by (auto simp: adds_def ID3_def prim_defs split: sum.splits)
lemma adds_ID3_delete: "P (ID3Delete p) \<Longrightarrow> adds P (ID3_delete E t p)"
  by (auto simp: adds_def ID3_delete_def prim_defs split: sum.splits)
lemma adds_ID3_save: "P (ID3Save p) \<Longrightarrow> adds P (ID3_save E t p)"
  by (auto simp: adds_def ID3_save_def prim_defs split: sum.splits)
lemma adds_detect: "P (LibrosaLoad p) \<Longrightarrow> P BeatTrack \<Longrightarrow> adds P (detectBPM E p)"
  by (auto simp: adds_def detectBPM_def prim_defs split: sum.splits prod.splits list.splits)

lemma adds_convert: "P (FromFile None p) \<Longrightarrow> P (ExportTo q ''wav'') \<Longrightarrow> adds P (convertToWav E p q)"
  unfolding convertToWav_def by (intro adds_bind adds_from_file adds_export)
lemma adds_stretch: "(\<And>argv. P (Run argv)) \<Longrightarrow> adds P (stretchAudioWithRubberband E p q f)"
  unfolding stretchAudioWithRubberband_def by (intro adds_run)
lemma adds_write_output:
  "(\<And>fmt p. P (FromFile fmt p)) \<Longrightarrow> (\<And>p fmt. P (ExportTo p fmt)) \<Longrightarrow> (\<And>p q. P (Rename p q)) \<Longrightarrow>
   adds P (write_output E out)"
  unfolding write_output_def by (intro adds_if adds_bind adds_from_file adds_export adds_rename)
lemma adds_remove_temps: "(\<And>p. P (Exists p)) \<Longrightarrow> (\<And>p. P (Remove p)) \<Longrightarrow> adds P (remove_temps :: (unit, 'c) io)"
  unfolding remove_temps_def by (intro adds_if adds_bind adds_exists adds_remove adds_return)
lemma adds_finish:
  "(\<And>fmt p. P (FromFile fmt p)) \<Longrightarrow> (\<And>p fmt. P (ExportTo p fmt)) \<Longrightarrow> (\<And>p q. P (Rename p q)) \<Longrightarrow>
   (\<And>p. P (Exists p)) \<Longrightarrow> (\<And>p. P (Remove p)) \<Longrightarrow> (\<And>m. P (Print m)) \<Longrightarrow> adds P (finish E out)"
  unfolding finish_def by (intro adds_bind adds_print adds_write_output adds_remove_temps)
lemma adds_prepare_factor:
  "(\<And>fmt p. P (FromFile fmt p)) \<Longrightarrow> (\<And>p fmt. P (ExportTo p fmt)) \<Longrightarrow> (\<And>m. P (Print m)) \<Longrightarrow>
   adds P (prepare E inp None f)"
  unfolding prepare_def by (simp, intro adds_bind adds_print adds_convert adds_return)
lemma adds_prepare:
  "(\<And>fmt p. P (FromFile fmt p)) \<Longrightarrow> (\<And>p fmt. P (ExportTo p fmt)) \<Longrightarrow> (\<And>m. P (Print m)) \<Longrightarrow>
   (\<And>p. P (LibrosaLoad p)) \<Longrightarrow> P BeatTrack \<Longrightarrow> adds P (prepare E inp t f)"
  unfolding prepare_def
  by (intro adds_bind adds_print adds_convert) (auto split: option.splits intro!: adds_bind adds_detect adds_print adds_return)
lemma adds_copy:
  "(\<And>p. P (ID3Load p)) \<Longrightarrow> (\<And>p. P (ID3Delete p)) \<Longrightarrow> (\<And>p. P (ID3Save p)) \<Longrightarrow> (\<And>m. P (Print m)) \<Longrightarrow>
   adds P (copyMetadata E p q)"
  unfolding copyMetadata_def by (intro adds_bind adds_try adds_ID3 adds_ID3_delete adds_ID3_save adds_print)

lemma adds_True_changeBPM: "adds (\<lambda>e. True) (changeBPM E inp out t f)"
proof (cases "truthy t = truthy f")
  case True
  then show ?thesis by (simp add: changeBPM_invalid adds_raise)
next
  case False
  then show ?thesis
    by (simp add: changeBPM_blocks) (intro adds_bind adds_prepare adds_stretch adds_finish TrueI)
qed

lemma starts_bind:
  assumes "\<And>w. \<exists>evs. trace (snd (m w)) = trace w @ ev # evs" and "\<And>x. adds (\<lambda>e. True) (k x)"
  shows "\<exists>evs. trace (snd (bind_io m k w)) = trace w @ ev # evs"
proof -
  from assms(1) obtain evs where m: "trace (snd (m w)) = trace w @ ev # evs" by blast
  show ?thesis
  proof (cases "m w")
    case (Pair r w1)
    show ?thesis
    proof (cases r)
      case (Inl e)
      with Pair m show ?thesis by (auto simp: bind_io_def)
    next
      case (Inr x)
      from assms(2)[of x] obtain evs2 where "trace (snd (k x w1)) = trace w1 @ evs2"
        unfolding adds_def by blast
      with Pair Inr m have "trace (snd (bind_io m k w)) = trace w @ ev # (evs @ evs2)"
        by (auto simp: bind_io_def)
      then show ?thesis by blast
    qed
  qed
qed

lemma starts_from_file:
  "\<exists>evs. trace (snd (AudioSegment_from_file E fmt p w)) = trace w @ FromFile fmt p # evs"
  by (auto simp: AudioSegment_from_file_def prim_defs split: sum.splits)

lemma changeBPM_first_event:
  assumes "truthy t \<noteq> truthy f"
  shows "\<exists>evs. trace (snd (changeBPM E inp out t f w)) = trace w @ FromFile None inp # evs"
  unfolding changeBPM_blocks[OF assms] prepare_def convertToWav_def
  by (intro starts_bind starts_from_file adds_bind adds_export adds_print adds_stretch adds_finish TrueI)
     (auto split: option.splits intro!: adds_bind adds_detect adds_print adds_return)

section \<open>Argument validation\<close>

lemma changeBPM_no_ValueError:
  assumes "truthy t \<noteq> truthy f"
  shows "fst (changeBPM E inp out t f w) \<noteq> Inl (ValueError m)"
proof -
  have "raises_only (\<lambda>e. e \<noteq> ValueError m) (changeBPM E inp out t f)"
    unfolding changeBPM_blocks[OF assms] stretchAudioWithRubberband_def
    by (intro ro_bind ro_prepare ro_run ro_finish) simp_all
  then show ?thesis
    by (auto simp: raises_only_def dest!: spec[of _ w])
qed

lemmas eval_defs = changeBPM_def main_def copyMetadata_def convertToWav_def detectBPM_def
  stretchAudioWithRubberband_def rubberband_argv_def write_output_def remove_temps_def
  os_path_exists_def os_remove_def os_rename_def os_listdir_def subprocess_run_check_def
  AudioSegment_from_file_def AudioSegment_export_def ID3_def ID3_delete_def ID3_save_def
  bind_io_def log_def lib_def raise_io_def return_io_def print_def try_except_pass_def
  truthy_def py_str_def endswith_def tempInp_def tempOut_def
  demo_env_def demo_world_def demo_spawn_def no_rubberband_env_def

text \<open>
  The two tests of \<open>changeBPM\<close> are tests of truthiness: when the target BPM and the
  factor are both falsy (absent or zero), or both truthy, the call ends with a
  \<open>ValueError\<close> and the world is unchanged, so nothing was read, written or printed.
  When exactly one of them is truthy the call raises no \<open>ValueError\<close> and goes on to
  decode the input file.
\<close>

lemma changeBPM_validation_truthy:
  "(\<not> truthy toBPM \<and> \<not> truthy factor \<longrightarrow>
      changeBPM E inp out toBPM factor w = (Inl (ValueError msg_neither), w)) \<and>
   (truthy toBPM \<and> truthy factor \<longrightarrow>
      changeBPM E inp out toBPM factor w = (Inl (ValueError msg_both), w)) \<and>
   (truthy toBPM \<noteq> truthy factor \<longrightarrow>
      (\<forall>m. fst (changeBPM E inp out toBPM factor w) \<noteq> Inl (ValueError m)) \<and>
      (\<exists>evs. trace (snd (changeBPM E inp out toBPM factor w)) = trace w @ FromFile None inp # evs))"
  by (auto simp: changeBPM_invalid raise_io_def changeBPM_no_ValueError changeBPM_first_event)

lemma valid_truthy: "valid_arg v \<Longrightarrow> truthy v = supplied v"
  by (cases v) (auto simp: valid_arg_def truthy_def supplied_def)

text \<open>
  Claim C1. For valid inputs (every supplied value is positive): when neither the target
  BPM nor the factor is supplied, or both are, \<open>changeBPM\<close> ends with a \<open>ValueError\<close>, the
  same kind of error in both cases, and the world is unchanged, so no file was read or
  written and nothing was printed. When exactly one is supplied, the call raises no
  \<open>ValueError\<close> and goes on: the first thing it does is decode the input file.
\<close>

theorem changeBPM_exactly_one_supplied:
  "valid_arg toBPM \<and> valid_arg factor \<longrightarrow>
   (\<not> supplied toBPM \<and> \<not> supplied factor \<longrightarrow>
      changeBPM E inp out toBPM factor w = (Inl (ValueError msg_neither), w)) \<and>
   (supplied toBPM \<and> supplied factor \<longrightarrow>
      changeBPM E inp out toBPM factor w = (Inl (ValueError msg_both), w)) \<and>
   (supplied toBPM \<noteq> supplied factor \<longrightarrow>
      (\<forall>m. fst (changeBPM E inp out toBPM factor w) \<noteq> Inl (ValueError m)) \<and>
      (\<exists>evs. trace (snd (changeBPM E inp out toBPM factor w)) = trace w @ FromFile None inp # evs))"
proof
  assume "valid_arg toBPM \<and> valid_arg factor"
  then have "truthy toBPM = supplied toBPM" "truthy factor = supplied factor"
    by (simp_all add: valid_truthy)
  with changeBPM_validation_truthy[of toBPM factor E inp out w]
  show "(\<not> supplied toBPM \<and> \<not> supplied factor \<longrightarrow>
      changeBPM E inp out toBPM factor w = (Inl (ValueError msg_neither), w)) \<and>
   (supplied toBPM \<and> supplied factor \<longrightarrow>
      changeBPM E inp out toBPM factor w = (Inl (ValueError msg_both), w)) \<and>
   (supplied toBPM \<noteq> supplied factor \<longrightarrow>
      (\<forall>m. fst (changeBPM E inp out toBPM factor w) \<noteq> Inl (ValueError m)) \<and>
      (\<exists>evs. trace (snd (changeBPM E inp out toBPM factor w)) = trace w @ FromFile None inp # evs))"
    by simp
qed

text \<open>
  The four cases of C1 in the concrete environment: neither, both, the target BPM alone
  and the factor alone.
\<close>

theorem changeBPM_exactly_one_supplied_witness:
  "valid_arg None \<and> valid_arg (Some 128) \<and> valid_arg (Some 2) \<and>
   changeBPM demo_env ''song.mp3'' ''out.mp3'' None None demo_world
     = (Inl (ValueError msg_neither), demo_world) \<and>
   changeBPM demo_env ''song.mp3'' ''out.mp3'' (Some 128) (Some 2) demo_world
     = (Inl (ValueError msg_both), demo_world) \<and>
   fst (changeBPM demo_env ''song.mp3'' ''out.mp3'' (Some 128) None demo_world)
     \<noteq> Inl (ValueError msg_neither) \<and>
   hd (trace (snd (changeBPM demo_env ''song.mp3'' ''out.mp3'' (Some 128) None demo_world)))
     = FromFile None ''song.mp3'' \<and>
   fst (changeBPM demo_env ''song.mp3'' ''out.mp3'' None (Some 2) demo_world)
     \<noteq> Inl (ValueError msg_both) \<and>
   hd (trace (snd (changeBPM demo_env ''song.mp3'' ''out.mp3'' None (Some 2) demo_world)))
     = FromFile None ''song.mp3''"
proof -
  have v: "valid_arg None" "valid_arg (Some 128)" "valid_arg (Some 2)"
    and s: "\<not> supplied None" "supplied (Some 128)" "supplied (Some 2)"
    and t: "trace demo_world = []"
    by (simp_all add: valid_arg_def supplied_def demo_world_def)
  from changeBPM_exactly_one_supplied [of None None demo_env "''song.mp3''" "''out.mp3''" demo_world] v s
  have a: "changeBPM demo_env ''song.mp3'' ''out.mp3'' None None demo_world
     = (Inl (ValueError msg_neither), demo_world)"
    by blast
  from changeBPM_exactly_one_supplied [of "Some 128" "Some 2" demo_env "''song.mp3''" "''out.mp3''"
      demo_world] v s
  have b: "changeBPM demo_env ''song.mp3'' ''out.mp3'' (Some 128) (Some 2) demo_world
     = (Inl (ValueError msg_both), demo_world)"
    by blast
  from changeBPM_exactly_one_supplied [of "Some 128" None demo_env "''song.mp3''" "''out.mp3''"
      demo_world] v s t
  have c: "fst (changeBPM demo_env ''song.mp3'' ''out.mp3'' (Some 128) None demo_world)
       \<noteq> Inl (ValueError msg_neither) \<and>
     hd (trace (snd (changeBPM demo_env ''song.mp3'' ''out.mp3'' (Some 128) None demo_world)))
       = FromFile None ''song.mp3''"
    by auto
  from changeBPM_exactly_one_supplied [of None "Some 2" demo_env "''song.mp3''" "''out.mp3''"
      demo_world] v s t
  have d: "fst (changeBPM demo_env ''song.mp3'' ''out.mp3'' None (Some 2) demo_world)
       \<noteq> Inl (ValueError msg_both) \<and>
     hd (trace (snd (changeBPM demo_env ''song.mp3'' ''out.mp3'' None (Some 2) demo_world)))
       = FromFile None ''song.mp3''"
    by auto
  from v a b c d show ?thesis by blast
qed

text \<open>
  Claim C9: a zero-valued argument counts as absent. With \<open>factor = 0.0\<close> and no
  target BPM the call raises the "neither provided" \<open>ValueError\<close> and does nothing
  else. With a positive target BPM and \<open>factor = 0.0\<close> the call is accepted: it raises no
  \<open>ValueError\<close> (so not the "both provided" one), it goes on to decode the input file,
  and it is in every respect the call with the target BPM alone.
\<close>

theorem changeBPM_zero_is_absent:
  "changeBPM E inp out None (Some 0) w = (Inl (ValueError msg_neither), w) \<and>
   (0 < b \<longrightarrow>
      changeBPM E inp out (Some b) (Some 0) w = changeBPM E inp out (Some b) None w \<and>
      fst (changeBPM E inp out (Some b) (Some 0) w) \<noteq> Inl (ValueError msg_both) \<and>
      (\<forall>m. fst (changeBPM E inp out (Some b) (Some 0) w) \<noteq> Inl (ValueError m)) \<and>
      (\<exists>evs. trace (snd (changeBPM E inp out (Some b) (Some 0) w))
               = trace w @ FromFile None inp # evs) \<and>
      changeBPM E inp out (Some b) (Some 0) w =
        bind_io (prepare E inp (Some b) None) (\<lambda>fac.
        bind_io (stretchAudioWithRubberband E tempInp tempOut fac) (\<lambda>_. finish E out)) w)"
proof -
  have eq: "changeBPM E inp out (Some b) (Some 0) w = changeBPM E inp out (Some b) None w"
    by (simp add: changeBPM_def truthy_def)
  have v: "truthy (Some b) \<noteq> truthy (Some 0)" "truthy (Some b) \<noteq> truthy None" if "0 < b"
    using that by (simp_all add: truthy_def)
  have "fst (changeBPM E inp out (Some b) (Some 0) w) \<noteq> Inl (ValueError m)" if "0 < b" for m
    using v(1)[OF that] by (rule changeBPM_no_ValueError)
  moreover have "\<exists>evs. trace (snd (changeBPM E inp out (Some b) (Some 0) w))
               = trace w @ FromFile None inp # evs" if "0 < b"
    using v(1)[OF that] by (rule changeBPM_first_event)
  moreover have "changeBPM E inp out (Some b) (Some 0) w =
        bind_io (prepare E inp (Some b) None) (\<lambda>fac.
        bind_io (stretchAudioWithRubberband E tempInp tempOut fac) (\<lambda>_. finish E out)) w" if "0 < b"
    unfolding eq by (simp only: changeBPM_blocks[OF v(2)[OF that]])
  moreover have "changeBPM E inp out None (Some 0) w = (Inl (ValueError msg_neither), w)"
    by (simp add: changeBPM_def truthy_def raise_io_def)
  ultimately show ?thesis using eq by blast
qed

text \<open>
  C9 at target BPM 128 in the concrete environment.
\<close>

theorem changeBPM_zero_is_absent_witness:
  "changeBPM demo_env ''song.mp3'' ''out.mp3'' None (Some 0) demo_world
     = (Inl (ValueError msg_neither), demo_world) \<and>
   (0 :: real) < 128 \<and>
   changeBPM demo_env ''song.mp3'' ''out.mp3'' (Some 128) (Some 0) demo_world
     = changeBPM demo_env ''song.mp3'' ''out.mp3'' (Some 128) None demo_world \<and>
   fst (changeBPM demo_env ''song.mp3'' ''out.mp3'' (Some 128) (Some 0) demo_world)
     \<noteq> Inl (ValueError msg_both) \<and>
   fst (changeBPM demo_env ''song.mp3'' ''out.mp3'' (Some 128) (Some 0) demo_world)
     \<noteq> Inl (ValueError msg_neither) \<and>
   hd (trace (snd (changeBPM demo_env ''song.mp3'' ''out.mp3'' (Some 128) (Some 0) demo_world)))
     = FromFile None ''song.mp3''"
proof -
  have h: "(0 :: real) < 128" by simp
  have t: "trace demo_world = []" by (simp add: demo_world_def)
  from changeBPM_zero_is_absent [of demo_env "''song.mp3''" "''out.mp3''" demo_world 128] h
  have "changeBPM demo_env ''song.mp3'' ''out.mp3'' None (Some 0) demo_world
       = (Inl (ValueError msg_neither), demo_world)"
    and "changeBPM demo_env ''song.mp3'' ''out.mp3'' (Some 128) (Some 0) demo_world
       = changeBPM demo_env ''song.mp3'' ''out.mp3'' (Some 128) None demo_world"
    and "\<forall>m. fst (changeBPM demo_env ''song.mp3'' ''out.mp3'' (Some 128) (Some 0) demo_world)
       \<noteq> Inl (ValueError m)"
    and "\<exists>evs. trace (snd (changeBPM demo_env ''song.mp3'' ''out.mp3'' (Some 128) (Some 0) demo_world))
               = trace demo_world @ FromFile None ''song.mp3'' # evs"
    by blast+
  with h t show ?thesis by auto
qed

lemma ro_changeBPM_no_ValueError:
  "truthy t \<noteq> truthy f \<Longrightarrow> raises_only (\<lambda>e. e \<noteq> ValueError m) (changeBPM E inp out t f)"
  unfolding changeBPM_blocks stretchAudioWithRubberband_def
  by (intro ro_bind ro_prepare ro_run ro_finish) simp_all

lemma main_no_ValueError: "fst (main E bpm factor inputSong w) \<noteq> Inl (ValueError m)"
proof -
  have "raises_only (\<lambda>e. e \<noteq> ValueError m) (main E bpm factor inputSong)"
  proof (cases "truthy factor")
    case True
    then show ?thesis
      unfolding main_def
      by simp (intro ro_bind ro_print ro_copy ro_changeBPM_no_ValueError; simp add: truthy_def)
  next
    case False
    then show ?thesis
      unfolding main_def
      by (cases "bpm = 0"; simp)
         (intro ro_bind ro_print ro_copy ro_return ro_changeBPM_no_ValueError; simp add: truthy_def)+
  qed
  then show ?thesis
    by (auto simp: raises_only_def dest!: spec[of _ w])
qed

lemma main_factor_no_detection:
  assumes "truthy factor"
  shows "adds (\<lambda>e. \<not> is_detection e) (main E bpm factor inputSong)"
proof -
  from assms have "truthy None \<noteq> truthy factor" by (simp add: truthy_def)
  then show ?thesis
    unfolding main_def using assms
    by (simp add: changeBPM_blocks)
       (intro adds_bind adds_print adds_prepare_factor adds_stretch adds_finish adds_copy; simp)
qed

text \<open>
  Claim C10: when \<open>main\<close> gets a truthy \<open>bpm\<close> and a truthy \<open>factor\<close> it calls
  \<open>changeBPM\<close> with the factor only (the target BPM is \<open>None\<close>), so no tempo detection
  happens; and whatever its arguments, \<open>main\<close> never ends with the "both provided"
  \<open>ValueError\<close> of \<open>changeBPM\<close>.
\<close>

theorem main_factor_precedence:
  "(bpm \<noteq> 0 \<and> truthy factor \<longrightarrow>
      main E bpm factor inputSong w =
        bind_io (print (Loading inputSong)) (\<lambda>_.
        bind_io (changeBPM E inputSong (outputSong_of bpm inputSong) None factor) (\<lambda>_.
        copyMetadata E inputSong (outputSong_of bpm inputSong))) w \<and>
      (\<exists>evs. trace (snd (main E bpm factor inputSong w)) = trace w @ evs \<and>
             list_all (\<lambda>e. \<not> is_detection e) evs)) \<and>
   fst (main E bpm factor inputSong w) \<noteq> Inl (ValueError msg_both)"
proof (intro conjI impI)
  assume a: "bpm \<noteq> 0 \<and> truthy factor"
  then show "main E bpm factor inputSong w =
        bind_io (print (Loading inputSong)) (\<lambda>_.
        bind_io (changeBPM E inputSong (outputSong_of bpm inputSong) None factor) (\<lambda>_.
        copyMetadata E inputSong (outputSong_of bpm inputSong))) w"
    by (simp add: main_def)
  from a main_factor_no_detection[of factor E bpm inputSong]
  show "\<exists>evs. trace (snd (main E bpm factor inputSong w)) = trace w @ evs \<and>
             list_all (\<lambda>e. \<not> is_detection e) evs"
    unfolding adds_def by blast
next
  show "fst (main E bpm factor inputSong w) \<noteq> Inl (ValueError msg_both)"
    by (rule main_no_ValueError)
qed

text \<open>
  C10 at \<open>bpm = 128\<close>, \<open>factor = 2.0\<close> in the concrete environment.
\<close>

theorem main_factor_precedence_witness:
  "(128 :: int) \<noteq> 0 \<and> truthy (Some 2) \<and>
   list_all (\<lambda>e. \<not> is_detection e) (trace (snd (main demo_env 128 (Some 2) ''song.mp3'' demo_world))) \<and>
   fst (main demo_env 128 (Some 2) ''song.mp3'' demo_world) \<noteq> Inl (ValueError msg_both)"
  using main_factor_precedence [of 128 "Some 2" demo_env "''song.mp3''" demo_world]
  by (auto simp: truthy_def demo_world_def)

section \<open>Temporary files\<close>

lemma adds_D:
  "adds P m \<Longrightarrow> m w = (r, w') \<Longrightarrow> \<exists>evs. trace w' = trace w @ evs \<and> list_all P evs"
  unfolding adds_def by (metis snd_conv)

lemma print_result: "print m w = (Inr (), w\<lparr>trace := trace w @ [Print m]\<rparr>)"
  by (simp add: print_def log_def)

lemma remove_temps_ok: "fst (remove_temps w) = Inr ()"
  by (simp add: remove_temps_def os_path_exists_def os_remove_def prim_defs split: option.splits)

lemma remove_temps_files:
  "files (snd (remove_temps w)) = (files w)(tempInp := None, tempOut := None)"
  by (auto simp: remove_temps_def os_path_exists_def os_remove_def prim_defs fun_upd_idem
           split: option.splits)

lemma finish_success:
  assumes "finish E out w = (Inr (), w')"
  shows "files w' tempInp = None \<and> files w' tempOut = None"
proof -
  from assms obtain w1 w2 where
    "remove_temps w1 = (Inr (), w2)" and "print (Exported out) w2 = (Inr (), w')"
    unfolding finish_def by (elim bind_cases) auto
  then have "files w2 = (files w1)(tempInp := None, tempOut := None)" and "files w' = files w2"
    using remove_temps_files[of w1] by (auto simp: print_result)
  then show ?thesis by simp
qed

lemma finish_failure:
  assumes "finish E out w = (Inl e, w')"
  shows "\<exists>evs. trace w' = trace w @ evs \<and> list_all (\<lambda>ev. \<not> is_cleanup ev) evs"
proof -
  define w1 where "w1 = w\<lparr>trace := trace w @ [Print (Stretched tempOut)]\<rparr>"
  have w1: "print (Stretched tempOut) w = (Inr (), w1)"
    by (simp add: print_result w1_def)
  have rest:
    "bind_io (write_output E out) (\<lambda>_. bind_io remove_temps (\<lambda>_. print (Exported out))) w1
       = (Inl e, w')"
    using assms unfolding finish_def print_def w1_def by (simp add: bind_log)
  from rest have "write_output E out w1 = (Inl e, w')"
  proof (cases rule: bind_cases)
    case (ok x w2)
    from ok(2) show ?thesis
    proof (cases rule: bind_cases)
      case fail
      with remove_temps_ok[of w2] show ?thesis by simp
    next
      case (ok y w3)
      then show ?thesis by (simp add: print_result)
    qed
  qed simp
  moreover have "adds (\<lambda>ev. \<not> is_cleanup ev) (write_output E out)"
    by (intro adds_write_output) simp_all
  ultimately obtain evs where "trace w' = trace w1 @ evs" "list_all (\<lambda>ev. \<not> is_cleanup ev) evs"
    using adds_D by blast
  with w1 have "trace w' = trace w @ (Print (Stretched tempOut) # evs)"
    "list_all (\<lambda>ev. \<not> is_cleanup ev) (Print (Stretched tempOut) # evs)"
    by (auto simp: print_result)
  then show ?thesis by blast
qed

lemma changeBPM_success_temps:
  assumes "changeBPM E inp out t f w = (Inr (), w')"
  shows "files w' tempInp = None \<and> files w' tempOut = None"
proof (cases "truthy t = truthy f")
  case True
  with assms show ?thesis by (simp add: changeBPM_invalid raise_io_def)
next
  case False
  from assms obtain w2 where "finish E out w2 = (Inr (), w')"
    unfolding changeBPM_blocks[OF False] by (elim bind_cases) auto
  then show ?thesis by (rule finish_success)
qed

lemma changeBPM_failure_no_cleanup:
  assumes "changeBPM E inp out t f w = (Inl e, w')"
  shows "\<exists>evs. trace w' = trace w @ evs \<and> list_all (\<lambda>ev. \<not> is_cleanup ev) evs"
proof (cases "truthy t = truthy f")
  case True
  with assms show ?thesis by (simp add: changeBPM_invalid raise_io_def)
next
  case False
  have p: "adds (\<lambda>ev. \<not> is_cleanup ev) (prepare E inp t f)"
    by (intro adds_prepare) simp_all
  have s: "adds (\<lambda>ev. \<not> is_cleanup ev) (stretchAudioWithRubberband E tempInp tempOut fac)" for fac
    by (intro adds_stretch) simp
  from assms show ?thesis
    unfolding changeBPM_blocks[OF False]
  proof (cases rule: bind_cases)
    case fail
    with p show ?thesis using adds_D by blast
  next
    case (ok fac w1)
    from adds_D[OF p ok(1)] obtain e1 where e1: "trace w1 = trace w @ e1"
      "list_all (\<lambda>ev. \<not> is_cleanup ev) e1" by blast
    from ok(2) show ?thesis
    proof (cases rule: bind_cases)
      case fail
      from adds_D[OF s fail(1)] obtain e2 where "trace w' = trace w1 @ e2"
        "list_all (\<lambda>ev. \<not> is_cleanup ev) e2" by blast
      with e1 have "trace w' = trace w @ (e1 @ e2)" "list_all (\<lambda>ev. \<not> is_cleanup ev) (e1 @ e2)"
        by simp_all
      then show ?thesis by blast
    next
      case (ok u w2)
      from adds_D[OF s ok(1)] obtain e2 where e2: "trace w2 = trace w1 @ e2"
        "list_all (\<lambda>ev. \<not> is_cleanup ev) e2" by blast
      from finish_failure[OF ok(2)] obtain e3 where "trace w' = trace w2 @ e3"
        "list_all (\<lambda>ev. \<not> is_cleanup ev) e3" by blast
      with e1 e2 have "trace w' = trace w @ (e1 @ e2 @ e3)"
        "list_all (\<lambda>ev. \<not> is_cleanup ev) (e1 @ e2 @ e3)"
        by simp_all
      then show ?thesis by blast
    qed
  qed
qed

text \<open>
  Claim C2, as the code has it. The cleanup block itself never fails: it tests each
  temporary file for existence before removing it, and leaves neither behind. When
  \<open>changeBPM\<close> returns normally, neither temporary WAV file exists. The cleanup is the
  last block of a straight-line function with no exception handler: when \<open>changeBPM\<close>
  ends with an exception, it has attempted no existence test and no removal.
\<close>

theorem changeBPM_cleanup_on_success:
  "fst (remove_temps w) = Inr () \<and>
   files (snd (remove_temps w)) = (files w)(tempInp := None, tempOut := None) \<and>
   (changeBPM E inp out toBPM factor w = (Inr (), w') \<longrightarrow>
      files w' tempInp = None \<and> files w' tempOut = None) \<and>
   (changeBPM E inp out toBPM factor w = (Inl e, w') \<longrightarrow>
      (\<exists>evs. trace w' = trace w @ evs \<and> list_all (\<lambda>ev. \<not> is_cleanup ev) evs))"
  using remove_temps_ok remove_temps_files changeBPM_success_temps changeBPM_failure_no_cleanup
  by blast

lemma demo_success:
  "fst (changeBPM demo_env ''song.mp3'' ''out.mp3'' None (Some 2) demo_world) = Inr ()"
  by (simp add: eval_defs)

text \<open>
  C2 in the concrete environment: a successful run, and a run without the stretcher binary.
\<close>

theorem changeBPM_cleanup_on_success_witness:
  "files (snd (changeBPM demo_env ''song.mp3'' ''out.mp3'' None (Some 2) demo_world)) tempInp = None \<and>
   files (snd (changeBPM demo_env ''song.mp3'' ''out.mp3'' None (Some 2) demo_world)) tempOut = None \<and>
   list_all (\<lambda>ev. \<not> is_cleanup ev)
     (trace (snd (changeBPM no_rubberband_env ''song.mp3'' ''out.mp3'' None (Some 2) demo_world)))"
proof -
  have a: "changeBPM demo_env ''song.mp3'' ''out.mp3'' None (Some 2) demo_world
      = (Inr (), snd (changeBPM demo_env ''song.mp3'' ''out.mp3'' None (Some 2) demo_world))"
    using demo_success by (metis prod.collapse)
  have "fst (changeBPM no_rubberband_env ''song.mp3'' ''out.mp3'' None (Some 2) demo_world)
      = Inl FileNotFoundError"
    by (simp add: eval_defs)
  then have b: "changeBPM no_rubberband_env ''song.mp3'' ''out.mp3'' None (Some 2) demo_world
      = (Inl FileNotFoundError,
         snd (changeBPM no_rubberband_env ''song.mp3'' ''out.mp3'' None (Some 2) demo_world))"
    by (metis prod.collapse)
  have t: "trace demo_world = []" by (simp add: demo_world_def)
  from changeBPM_cleanup_on_success [of demo_world demo_env "''song.mp3''" "''out.mp3''" None
      "Some 2" "snd (changeBPM demo_env ''song.mp3'' ''out.mp3'' None (Some 2) demo_world)"] a
  have "files (snd (changeBPM demo_env ''song.mp3'' ''out.mp3'' None (Some 2) demo_world)) tempInp = None \<and>
   files (snd (changeBPM demo_env ''song.mp3'' ''out.mp3'' None (Some 2) demo_world)) tempOut = None"
    by blast
  moreover from changeBPM_cleanup_on_success [of demo_world no_rubberband_env "''song.mp3''" "''out.mp3''" None
      "Some 2" "snd (changeBPM no_rubberband_env ''song.mp3'' ''out.mp3'' None (Some 2) demo_world)"
      FileNotFoundError] b t
  have "list_all (\<lambda>ev. \<not> is_cleanup ev)
     (trace (snd (changeBPM no_rubberband_env ''song.mp3'' ''out.mp3'' None (Some 2) demo_world)))"
    by auto
  ultimately show ?thesis by blast
qed

text \<open>
  Claim C2 as stated fails: with no \<^verbatim>\<open>rubberband\<close> executable the call ends with
  \<open>FileNotFoundError\<close> partway through stretching, and the pre-stretch temporary file
  \<^verbatim>\<open>TemporalInp.wav\<close> is still on disk afterwards.
\<close>

theorem changeBPM_cleanup_counterexample:
  "fst (changeBPM no_rubberband_env ''song.mp3'' ''out.mp3'' None (Some 2) demo_world)
     = Inl FileNotFoundError \<and>
   files (snd (changeBPM no_rubberband_env ''song.mp3'' ''out.mp3'' None (Some 2) demo_world))
     ''TemporalInp.wav'' = Some (''mp3 audio'', None)"
  by (simp add: eval_defs)

section \<open>The stretch factor\<close>

lemma prepare_toBPM:
  assumes "b \<noteq> 0"
    and "convertToWav E inp tempInp w = (Inr (), w1)"
    and "detectBPM E tempInp (w1\<lparr>trace := trace w1 @ [Print (Converted inp)]\<rparr>) = (Inr orig, w2)"
  shows "prepare E inp (Some b) factor w =
    (Inr (Some (orig / b)),
     w2\<lparr>trace := trace w2 @ [Print (OriginalBPM orig), Print (ChangeFactor (orig / b))]\<rparr>)"
  using assms by (simp add: prepare_def bind_io_def print_def log_def return_io_def)

lemma prepare_factor:
  assumes "convertToWav E inp tempInp w = (Inr (), w1)"
  shows "prepare E inp None factor w = (Inr factor, w1\<lparr>trace := trace w1 @ [Print (Converted inp)]\<rparr>)"
  using assms by (simp add: prepare_def bind_io_def print_def log_def return_io_def)

lemma changeBPM_factor_no_detection:
  assumes "x \<noteq> 0"
  shows "adds (\<lambda>e. \<not> is_detection e) (changeBPM E inp out None (Some x))"
proof -
  from assms have "truthy None \<noteq> truthy (Some x)" by (simp add: truthy_def)
  then show ?thesis
    by (simp add: changeBPM_blocks)
       (intro adds_bind adds_prepare_factor adds_stretch adds_finish; simp)
qed

text \<open>
  Claim C3. With a non-zero target BPM \<open>b\<close> and no factor: once the input is converted
  to the temporary WAV, tempo detection runs on that file, and with its answer \<open>orig\<close>
  the rest of \<open>changeBPM\<close> is the stretcher called with the factor \<open>orig / b\<close>, followed
  by the final block; the factor is positive when both tempos are. With a factor \<open>x\<close>
  given directly, the stretcher is called with \<open>x\<close> straight after the conversion, and
  the whole call performs no detection step. Division is that of the reals.
\<close>

theorem changeBPM_stretch_factor:
  "(b \<noteq> 0 \<and> \<not> truthy factor \<and>
    convertToWav E inp tempInp w = (Inr (), w1) \<and>
    detectBPM E tempInp (w1\<lparr>trace := trace w1 @ [Print (Converted inp)]\<rparr>) = (Inr orig, w2) \<longrightarrow>
      changeBPM E inp out (Some b) factor w =
        bind_io (stretchAudioWithRubberband E tempInp tempOut (Some (orig / b))) (\<lambda>_. finish E out)
          (w2\<lparr>trace := trace w2 @ [Print (OriginalBPM orig), Print (ChangeFactor (orig / b))]\<rparr>) \<and>
      (0 < orig \<and> 0 < b \<longrightarrow> 0 < orig / b)) \<and>
   (x \<noteq> 0 \<and> convertToWav E inp tempInp w = (Inr (), w1) \<longrightarrow>
      changeBPM E inp out None (Some x) w =
        bind_io (stretchAudioWithRubberband E tempInp tempOut (Some x)) (\<lambda>_. finish E out)
          (w1\<lparr>trace := trace w1 @ [Print (Converted inp)]\<rparr>)) \<and>
   (x \<noteq> 0 \<longrightarrow>
      (\<exists>evs. trace (snd (changeBPM E inp out None (Some x) w)) = trace w @ evs \<and>
             list_all (\<lambda>e. \<not> is_detection e) evs))"
proof (intro conjI impI)
  assume a: "b \<noteq> 0 \<and> \<not> truthy factor \<and>
    convertToWav E inp tempInp w = (Inr (), w1) \<and>
    detectBPM E tempInp (w1\<lparr>trace := trace w1 @ [Print (Converted inp)]\<rparr>) = (Inr orig, w2)"
  then have v: "truthy (Some b) \<noteq> truthy factor" by (simp add: truthy_def)
  from a have "prepare E inp (Some b) factor w =
    (Inr (Some (orig / b)),
     w2\<lparr>trace := trace w2 @ [Print (OriginalBPM orig), Print (ChangeFactor (orig / b))]\<rparr>)"
    using prepare_toBPM[of b E inp w w1 orig w2 factor] by blast
  then show "changeBPM E inp out (Some b) factor w =
        bind_io (stretchAudioWithRubberband E tempInp tempOut (Some (orig / b))) (\<lambda>_. finish E out)
          (w2\<lparr>trace := trace w2 @ [Print (OriginalBPM orig), Print (ChangeFactor (orig / b))]\<rparr>)"
    unfolding changeBPM_blocks[OF v] by (simp add: bind_io_def)
next
  assume "0 < orig \<and> 0 < b"
  then show "0 < orig / b" by simp
next
  assume a: "x \<noteq> 0 \<and> convertToWav E inp tempInp w = (Inr (), w1)"
  then have v: "truthy None \<noteq> truthy (Some x)" by (simp add: truthy_def)
  from a have "prepare E inp None (Some x) w =
      (Inr (Some x), w1\<lparr>trace := trace w1 @ [Print (Converted inp)]\<rparr>)"
    using prepare_factor[of E inp w w1 "Some x"] by blast
  then show "changeBPM E inp out None (Some x) w =
        bind_io (stretchAudioWithRubberband E tempInp tempOut (Some x)) (\<lambda>_. finish E out)
          (w1\<lparr>trace := trace w1 @ [Print (Converted inp)]\<rparr>)"
    unfolding changeBPM_blocks[OF v] by (simp add: bind_io_def)
next
  assume "x \<noteq> 0"
  from changeBPM_factor_no_detection[OF this, of E inp out]
  show "\<exists>evs. trace (snd (changeBPM E inp out None (Some x) w)) = trace w @ evs \<and>
             list_all (\<lambda>e. \<not> is_detection e) evs"
    unfolding adds_def by blast
qed

text \<open>
  C3 in the concrete environment: detected tempo 120, target 100, and a direct factor 2.0.
\<close>

theorem changeBPM_stretch_factor_witness:
  "(100 :: real) \<noteq> 0 \<and> \<not> truthy None \<and> (0 :: real) < 120 / 100 \<and>
   changeBPM demo_env ''song.mp3'' ''out.mp3'' (Some 100) None demo_world =
     bind_io (stretchAudioWithRubberband demo_env tempInp tempOut (Some (120 / 100)))
       (\<lambda>_. finish demo_env ''out.mp3'')
       ((snd (detectBPM demo_env tempInp
           ((snd (convertToWav demo_env ''song.mp3'' tempInp demo_world))
              \<lparr>trace := trace (snd (convertToWav demo_env ''song.mp3'' tempInp demo_world))
                          @ [Print (Converted ''song.mp3'')]\<rparr>)))
         \<lparr>trace := trace (snd (detectBPM demo_env tempInp
           ((snd (convertToWav demo_env ''song.mp3'' tempInp demo_world))
              \<lparr>trace := trace (snd (convertToWav demo_env ''song.mp3'' tempInp demo_world))
                          @ [Print (Converted ''song.mp3'')]\<rparr>)))
            @ [Print (OriginalBPM 120), Print (ChangeFactor (120 / 100))]\<rparr>) \<and>
   list_all (\<lambda>e. \<not> is_detection e)
     (trace (snd (changeBPM demo_env ''song.mp3'' ''out.mp3'' None (Some 2) demo_world)))"
proof -
  let ?w1 = "snd (convertToWav demo_env ''song.mp3'' tempInp demo_world)"
  let ?w1' = "?w1\<lparr>trace := trace ?w1 @ [Print (Converted ''song.mp3'')]\<rparr>"
  let ?w2 = "snd (detectBPM demo_env tempInp ?w1')"
  have "fst (convertToWav demo_env ''song.mp3'' tempInp demo_world) = Inr ()"
    by (simp add: eval_defs)
  then have conv: "convertToWav demo_env ''song.mp3'' tempInp demo_world = (Inr (), ?w1)"
    by (metis prod.collapse)
  have "fst (detectBPM demo_env tempInp ?w1') = Inr 120"
    by (simp add: eval_defs)
  then have det: "detectBPM demo_env tempInp ?w1' = (Inr 120, ?w2)"
    by (metis prod.collapse)
  have h: "(100 :: real) \<noteq> 0" "\<not> truthy None" "(0 :: real) < 120" "(0 :: real) < 100" "(2 :: real) \<noteq> 0"
    by (simp_all add: truthy_def)
  have t: "trace demo_world = []" by (simp add: demo_world_def)
  from changeBPM_stretch_factor [of 100 None demo_env "''song.mp3''" demo_world ?w1 120 ?w2
      "''out.mp3''" 2] conv det h t
  show ?thesis by auto
qed

section \<open>The time stretcher\<close>

lemma stretch_result:
  "stretchAudioWithRubberband E inputWav outputWav f w =
     (case spawn E [''rubberband'', ''-t'', py_str E f, ''--pitch'', ''0'', ''--crisp'', ''5'',
                    inputWav, outputWav] (files w) of
        None \<Rightarrow>
          (Inl FileNotFoundError,
           w\<lparr>trace := trace w @ [Run [''rubberband'', ''-t'', py_str E f, ''--pitch'', ''0'',
                                       ''--crisp'', ''5'', inputWav, outputWav]]\<rparr>)
      | Some (rc, fs') \<Rightarrow>
          (if rc \<noteq> 0 then Inl (CalledProcessError rc) else Inr (),
           \<lparr>files = fs',
            trace = trace w @ [Run [''rubberband'', ''-t'', py_str E f, ''--pitch'', ''0'',
                                    ''--crisp'', ''5'', inputWav, outputWav]]\<rparr>))"
  by (simp add: stretchAudioWithRubberband_def rubberband_argv_def subprocess_run_check_def
        bind_io_def log_def raise_io_def split: option.splits)

lemma stretch_trace:
  "trace (snd (stretchAudioWithRubberband E i out f w)) = trace w @ [Run (rubberband_argv E i out f)]"
  by (simp add: stretchAudioWithRubberband_def subprocess_run_check_def
        bind_io_def log_def raise_io_def split: option.splits)

lemma filter_none: "list_all (\<lambda>e. \<not> P e) xs \<Longrightarrow> filter P xs = []"
  by (induction xs) auto

lemma changeBPM_abort:
  assumes "truthy t \<noteq> truthy f"
    and "prepare E inp t f w = (Inr fac, w1)"
    and "stretchAudioWithRubberband E tempInp tempOut fac w1 = (Inl e, w2)"
  shows "changeBPM E inp out t f w = (Inl e, w2)"
  unfolding changeBPM_blocks[OF assms(1)] using assms(2,3) by (simp add: bind_io_def)

lemma changeBPM_one_run:
  "\<exists>evs. trace (snd (changeBPM E inp out t f w)) = trace w @ evs \<and> length (filter is_Run evs) \<le> 1"
proof (cases "truthy t = truthy f")
  case True
  then show ?thesis by (simp add: changeBPM_invalid raise_io_def)
next
  case False
  have p: "adds (\<lambda>ev. \<not> is_Run ev) (prepare E inp t f)"
    by (intro adds_prepare) simp_all
  have fin: "adds (\<lambda>ev. \<not> is_Run ev) (finish E out)"
    by (intro adds_finish) simp_all
  obtain r w' where res: "changeBPM E inp out t f w = (r, w')" by (cases "changeBPM E inp out t f w")
  from res have "\<exists>evs. trace w' = trace w @ evs \<and> length (filter is_Run evs) \<le> 1"
    unfolding changeBPM_blocks[OF False]
  proof (cases rule: bind_cases)
    case fail
    from adds_D[OF p fail(1)] obtain e1 where "trace w' = trace w @ e1" "list_all (\<lambda>ev. \<not> is_Run ev) e1"
      by blast
    then have "trace w' = trace w @ e1" "length (filter is_Run e1) \<le> 1"
      by (simp_all add: filter_none)
    then show ?thesis by blast
  next
    case (ok fac w1)
    from adds_D[OF p ok(1)] obtain e1 where e1: "trace w1 = trace w @ e1"
      "list_all (\<lambda>ev. \<not> is_Run ev) e1" by blast
    from ok(2) show ?thesis
    proof (cases rule: bind_cases)
      case fail
      then have "trace w' = trace w1 @ [Run (rubberband_argv E tempInp tempOut fac)]"
        using stretch_trace[of E tempInp tempOut fac w1] by simp
      with e1 have "trace w' = trace w @ (e1 @ [Run (rubberband_argv E tempInp tempOut fac)])"
        "length (filter is_Run (e1 @ [Run (rubberband_argv E tempInp tempOut fac)])) \<le> 1"
        by (simp_all add: filter_none)
      then show ?thesis by blast
    next
      case (ok u w2)
      then have e2: "trace w2 = trace w1 @ [Run (rubberband_argv E tempInp tempOut fac)]"
        using stretch_trace[of E tempInp tempOut fac w1] by simp
      from adds_D[OF fin ok(2)] obtain e3 where "trace w' = trace w2 @ e3"
        "list_all (\<lambda>ev. \<not> is_Run ev) e3" by blast
      with e1 e2 have "trace w' = trace w @ (e1 @ Run (rubberband_argv E tempInp tempOut fac) # e3)"
        "length (filter is_Run (e1 @ Run (rubberband_argv E tempInp tempOut fac) # e3)) \<le> 1"
        by (simp_all add: filter_none)
      then show ?thesis by blast
    qed
  qed
  with res show ?thesis by simp
qed

text \<open>
  Claim C6. The stretcher makes one call of \<^verbatim>\<open>subprocess.run\<close> with the argument list
  \<^verbatim>\<open>rubberband -t <factor> --pitch 0 --crisp 5 <input> <output>\<close> and waits for it: when
  the executable cannot be started it raises \<open>FileNotFoundError\<close>, on a non-zero exit
  status \<open>rc\<close> it raises \<open>CalledProcessError rc\<close>, and only on status 0 it returns.
  In \<open>changeBPM\<close> a failure of the stretcher is the result of the whole call, in the
  world the stretcher left (nothing runs after it), and no call of \<open>changeBPM\<close> starts
  a process more than once (there is no retry).
\<close>

theorem stretch_invocation:
  "stretchAudioWithRubberband E inputWav outputWav a w =
     (case spawn E [''rubberband'', ''-t'', py_str E a, ''--pitch'', ''0'', ''--crisp'', ''5'',
                    inputWav, outputWav] (files w) of
        None \<Rightarrow>
          (Inl FileNotFoundError,
           w\<lparr>trace := trace w @ [Run [''rubberband'', ''-t'', py_str E a, ''--pitch'', ''0'',
                                       ''--crisp'', ''5'', inputWav, outputWav]]\<rparr>)
      | Some (rc, fs') \<Rightarrow>
          (if rc \<noteq> 0 then Inl (CalledProcessError rc) else Inr (),
           \<lparr>files = fs',
            trace = trace w @ [Run [''rubberband'', ''-t'', py_str E a, ''--pitch'', ''0'',
                                    ''--crisp'', ''5'', inputWav, outputWav]]\<rparr>)) \<and>
   (truthy toBPM \<noteq> truthy factor \<and>
    prepare E inp toBPM factor w = (Inr fac, w1) \<and>
    stretchAudioWithRubberband E tempInp tempOut fac w1 = (Inl e, w2) \<longrightarrow>
      changeBPM E inp out toBPM factor w = (Inl e, w2)) \<and>
   (\<exists>evs. trace (snd (changeBPM E inp out toBPM factor w)) = trace w @ evs \<and>
          length (filter is_Run evs) \<le> 1)"
  using stretch_result[of E inputWav outputWav a w] changeBPM_abort[of toBPM factor E inp w fac w1 e w2 out]
    changeBPM_one_run[of E inp out toBPM factor w]
  by blast

text \<open>
  C6 in the concrete environments: without the executable the call ends where the
  stretcher failed; with it, the process is started at most once.
\<close>

theorem stretch_invocation_witness:
  "changeBPM no_rubberband_env ''song.mp3'' ''out.mp3'' None (Some 2) demo_world =
     (Inl FileNotFoundError,
      snd (stretchAudioWithRubberband no_rubberband_env tempInp tempOut (Some 2)
            (snd (prepare no_rubberband_env ''song.mp3'' None (Some 2) demo_world)))) \<and>
   length (filter is_Run
     (trace (snd (changeBPM demo_env ''song.mp3'' ''out.mp3'' None (Some 2) demo_world)))) \<le> 1"
proof -
  let ?w1 = "snd (prepare no_rubberband_env ''song.mp3'' None (Some 2) demo_world)"
  let ?w2 = "snd (stretchAudioWithRubberband no_rubberband_env tempInp tempOut (Some 2) ?w1)"
  have "fst (prepare no_rubberband_env ''song.mp3'' None (Some 2) demo_world) = Inr (Some 2)"
    by (simp add: prepare_def eval_defs)
  then have p: "prepare no_rubberband_env ''song.mp3'' None (Some 2) demo_world = (Inr (Some 2), ?w1)"
    by (metis prod.collapse)
  have "fst (stretchAudioWithRubberband no_rubberband_env tempInp tempOut (Some 2) ?w1)
      = Inl FileNotFoundError"
    by (simp add: stretchAudioWithRubberband_def subprocess_run_check_def bind_io_def log_def
          raise_io_def no_rubberband_env_def)
  then have s: "stretchAudioWithRubberband no_rubberband_env tempInp tempOut (Some 2) ?w1
      = (Inl FileNotFoundError, ?w2)"
    by (metis prod.collapse)
  have v: "truthy None \<noteq> truthy (Some 2)" by (simp add: truthy_def)
  have t: "trace demo_world = []" by (simp add: demo_world_def)
  from stretch_invocation [of no_rubberband_env tempInp tempOut "Some 2" demo_world None "Some 2"
      "''song.mp3''" "Some 2" ?w1 FileNotFoundError ?w2 "''out.mp3''"] p s v
  have "changeBPM no_rubberband_env ''song.mp3'' ''out.mp3'' None (Some 2) demo_world =
     (Inl FileNotFoundError, ?w2)"
    by blast
  moreover from stretch_invocation [of demo_env tempInp tempOut "Some 2" demo_world None "Some 2"
      "''song.mp3''" "Some 2" ?w1 FileNotFoundError ?w2 "''out.mp3''"] t
  have "length (filter is_Run
     (trace (snd (changeBPM demo_env ''song.mp3'' ''out.mp3'' None (Some 2) demo_world)))) \<le> 1"
    by auto
  ultimately show ?thesis by blast
qed

section \<open>The metadata copier\<close>

lemma ID3_result:
  "ID3 E p w = (case id3_load E (files w p) of
                  Inl e \<Rightarrow> (Inl (ExternalError e), w\<lparr>trace := trace w @ [ID3Load p]\<rparr>)
                | Inr t \<Rightarrow> (Inr t, w\<lparr>trace := trace w @ [ID3Load p]\<rparr>))"
  by (simp add: ID3_def prim_defs split: sum.splits)

lemma ID3_save_result:
  "ID3_save E t p w = (case id3_save E t (files w p) of
       Inl e \<Rightarrow> (Inl (ExternalError e), w\<lparr>trace := trace w @ [ID3Save p]\<rparr>)
     | Inr c \<Rightarrow> (Inr (), \<lparr>files = (files w)(p \<mapsto> c), trace = trace w @ [ID3Save p]\<rparr>))"
  by (simp add: ID3_save_def prim_defs split: sum.splits)

lemma copyMetadata_read_failure:
  assumes "id3_load E (files w originalFile) = Inl e"
  shows "copyMetadata E originalFile newFile w =
    (Inl (ExternalError e), w\<lparr>trace := trace w @ [ID3Load originalFile]\<rparr>)"
  using assms by (simp add: copyMetadata_def bind_io_def ID3_result)

lemma copyMetadata_no_old_tags:
  assumes "id3_load E (files w originalFile) = Inr tags"
    and "id3_load E (files w newFile) = Inl e"
  shows "copyMetadata E originalFile newFile w =
    bind_io (ID3_save E tags newFile) (\<lambda>_. print (MetadataCopied originalFile newFile))
      (w\<lparr>trace := trace w @ [ID3Load originalFile, ID3Load newFile]\<rparr>)"
  using assms by (simp add: copyMetadata_def bind_io_def ID3_result try_except_pass_def)

lemma copyMetadata_success:
  assumes "id3_load E (files w originalFile) = Inr tags"
    and "copyMetadata E originalFile newFile w = (Inr (), w')"
  shows "\<exists>c0 c. id3_save E tags c0 = Inr c \<and> files w' newFile = Some c"
proof -
  from assms obtain w2 w3 where s: "ID3_save E tags newFile w2 = (Inr (), w3)"
    and p: "print (MetadataCopied originalFile newFile) w3 = (Inr (), w')"
    unfolding copyMetadata_def
    by (elim bind_cases) (auto simp: ID3_result)
  from s obtain c where "id3_save E tags (files w2 newFile) = Inr c" "files w3 newFile = Some c"
    by (auto simp: ID3_save_result split: sum.splits)
  moreover from p have "files w' = files w3" by (auto simp: print_result)
  ultimately show ?thesis by auto
qed

lemma ID3_delete_result:
  "ID3_delete E t p w = (case id3_delete E t (files w p) of
       Inl e \<Rightarrow> (Inl (ExternalError e), w\<lparr>trace := trace w @ [ID3Delete p]\<rparr>)
     | Inr c \<Rightarrow> (Inr (), \<lparr>files = (files w)(p \<mapsto> c), trace = trace w @ [ID3Delete p]\<rparr>))"
  by (simp add: ID3_delete_def prim_defs split: sum.splits)

lemma copyMetadata_old_tags_deleted:
  assumes "id3_load E (files w originalFile) = Inr tags"
    and "id3_load E (files w newFile) = Inr new_tags"
    and "id3_delete E new_tags (files w newFile) = Inr c1"
  shows "copyMetadata E originalFile newFile w =
    bind_io (ID3_save E tags newFile) (\<lambda>_. print (MetadataCopied originalFile newFile))
      \<lparr>files = (files w)(newFile \<mapsto> c1),
       trace = trace w @ [ID3Load originalFile, ID3Load newFile, ID3Delete newFile]\<rparr>"
  using assms
  by (simp add: copyMetadata_def bind_io_def ID3_result ID3_delete_result try_except_pass_def)

lemma copyMetadata_delete_failure:
  assumes "id3_load E (files w originalFile) = Inr tags"
    and "id3_load E (files w newFile) = Inr new_tags"
    and "id3_delete E new_tags (files w newFile) = Inl e"
  shows "copyMetadata E originalFile newFile w =
    bind_io (ID3_save E tags newFile) (\<lambda>_. print (MetadataCopied originalFile newFile))
      (w\<lparr>trace := trace w @ [ID3Load originalFile, ID3Load newFile, ID3Delete newFile]\<rparr>)"
  using assms
  by (simp add: copyMetadata_def bind_io_def ID3_result ID3_delete_result try_except_pass_def)

lemma copyMetadata_overwrites:
  assumes "id3_load E (files w originalFile) = Inr tags"
    and "id3_load E (files w newFile) = Inr new_tags"
    and "id3_delete E new_tags (files w newFile) = Inr c1"
    and "id3_save E tags (Some c1) = Inr c"
  shows "copyMetadata E originalFile newFile w =
    (Inr (),
     \<lparr>files = (files w)(newFile \<mapsto> c),
      trace = trace w @ [ID3Load originalFile, ID3Load newFile, ID3Delete newFile,
                         ID3Save newFile, Print (MetadataCopied originalFile newFile)]\<rparr>)"
  using assms
  by (simp add: copyMetadata_old_tags_deleted bind_io_def ID3_save_result print_result)

lemma copyMetadata_frame:
  "p \<noteq> newFile \<Longrightarrow> files (snd (copyMetadata E originalFile newFile w)) p = files w p"
  by (simp add: copyMetadata_def bind_io_def ID3_result ID3_delete_result ID3_save_result
        try_except_pass_def print_result split: sum.splits)

text \<open>
  Claim C7. When the tags of the original file cannot be read, \<open>copyMetadata\<close> ends with
  that error after the one read attempt and changes no file. When the new file has no
  tags to load, the deletion step is skipped without an error and without changing any
  file, and the copier goes on to save. When the new file has tags, they are deleted
  from it first, and a failure of that deletion is swallowed as well; the save is then
  made onto the new file as the deletion left it, so with old tags \<open>new_tags\<close> the new
  file ends as \<open>save tags (delete new_tags old_content)\<close>. No file other than the new
  file is changed. When the copier succeeds, the new file holds what saving the
  original's tag set produced; for a tag library in which loading a saved file gives
  back the saved tag set, the new file then carries exactly the original's tags,
  whatever it carried before.
\<close>

theorem copyMetadata_behaviour:
  "(id3_load E (files w originalFile) = Inl e \<longrightarrow>
      copyMetadata E originalFile newFile w =
        (Inl (ExternalError e), w\<lparr>trace := trace w @ [ID3Load originalFile]\<rparr>)) \<and>
   (id3_load E (files w originalFile) = Inr tags \<and> id3_load E (files w newFile) = Inl e \<longrightarrow>
      copyMetadata E originalFile newFile w =
        bind_io (ID3_save E tags newFile) (\<lambda>_. print (MetadataCopied originalFile newFile))
          (w\<lparr>trace := trace w @ [ID3Load originalFile, ID3Load newFile]\<rparr>)) \<and>
   (id3_load E (files w originalFile) = Inr tags \<and>
    id3_load E (files w newFile) = Inr new_tags \<and>
    id3_delete E new_tags (files w newFile) = Inr c1 \<longrightarrow>
      copyMetadata E originalFile newFile w =
        bind_io (ID3_save E tags newFile) (\<lambda>_. print (MetadataCopied originalFile newFile))
          \<lparr>files = (files w)(newFile \<mapsto> c1),
           trace = trace w @ [ID3Load originalFile, ID3Load newFile, ID3Delete newFile]\<rparr>) \<and>
   (id3_load E (files w originalFile) = Inr tags \<and>
    id3_load E (files w newFile) = Inr new_tags \<and>
    id3_delete E new_tags (files w newFile) = Inl e \<longrightarrow>
      copyMetadata E originalFile newFile w =
        bind_io (ID3_save E tags newFile) (\<lambda>_. print (MetadataCopied originalFile newFile))
          (w\<lparr>trace := trace w @ [ID3Load originalFile, ID3Load newFile, ID3Delete newFile]\<rparr>)) \<and>
   ID3_save E tags newFile w0 =
     (case id3_save E tags (files w0 newFile) of
        Inl e \<Rightarrow> (Inl (ExternalError e), w0\<lparr>trace := trace w0 @ [ID3Save newFile]\<rparr>)
      | Inr c \<Rightarrow> (Inr (), \<lparr>files = (files w0)(newFile \<mapsto> c),
                           trace = trace w0 @ [ID3Save newFile]\<rparr>)) \<and>
   (id3_load E (files w originalFile) = Inr tags \<and>
    id3_load E (files w newFile) = Inr new_tags \<and>
    id3_delete E new_tags (files w newFile) = Inr c1 \<and>
    id3_save E tags (Some c1) = Inr c \<longrightarrow>
      copyMetadata E originalFile newFile w =
        (Inr (),
         \<lparr>files = (files w)(newFile \<mapsto> c),
          trace = trace w @ [ID3Load originalFile, ID3Load newFile, ID3Delete newFile,
                             ID3Save newFile, Print (MetadataCopied originalFile newFile)]\<rparr>)) \<and>
   (p \<noteq> newFile \<longrightarrow> files (snd (copyMetadata E originalFile newFile w)) p = files w p) \<and>
   (id3_load E (files w originalFile) = Inr tags \<and>
    copyMetadata E originalFile newFile w = (Inr (), w') \<longrightarrow>
      (\<exists>c0 c. id3_save E tags c0 = Inr c \<and> files w' newFile = Some c) \<and>
      ((\<forall>t c0 c. id3_save E t c0 = Inr c \<longrightarrow> id3_load E (Some c) = Inr t) \<longrightarrow>
         id3_load E (files w' newFile) = Inr tags))"
proof (intro conjI impI)
  assume "id3_load E (files w originalFile) = Inl e"
  then show "copyMetadata E originalFile newFile w =
        (Inl (ExternalError e), w\<lparr>trace := trace w @ [ID3Load originalFile]\<rparr>)"
    by (rule copyMetadata_read_failure)
next
  assume "id3_load E (files w originalFile) = Inr tags \<and> id3_load E (files w newFile) = Inl e"
  then show "copyMetadata E originalFile newFile w =
        bind_io (ID3_save E tags newFile) (\<lambda>_. print (MetadataCopied originalFile newFile))
          (w\<lparr>trace := trace w @ [ID3Load originalFile, ID3Load newFile]\<rparr>)"
    using copyMetadata_no_old_tags[of E w originalFile tags newFile e] by blast
next
  assume "id3_load E (files w originalFile) = Inr tags \<and>
    id3_load E (files w newFile) = Inr new_tags \<and>
    id3_delete E new_tags (files w newFile) = Inr c1"
  then show "copyMetadata E originalFile newFile w =
        bind_io (ID3_save E tags newFile) (\<lambda>_. print (MetadataCopied originalFile newFile))
          \<lparr>files = (files w)(newFile \<mapsto> c1),
           trace = trace w @ [ID3Load originalFile, ID3Load newFile, ID3Delete newFile]\<rparr>"
    using copyMetadata_old_tags_deleted[of E w originalFile tags newFile new_tags c1] by blast
next
  assume "id3_load E (files w originalFile) = Inr tags \<and>
    id3_load E (files w newFile) = Inr new_tags \<and>
    id3_delete E new_tags (files w newFile) = Inl e"
  then show "copyMetadata E originalFile newFile w =
        bind_io (ID3_save E tags newFile) (\<lambda>_. print (MetadataCopied originalFile newFile))
          (w\<lparr>trace := trace w @ [ID3Load originalFile, ID3Load newFile, ID3Delete newFile]\<rparr>)"
    using copyMetadata_delete_failure[of E w originalFile tags newFile new_tags e] by blast
next
  show "ID3_save E tags newFile w0 =
     (case id3_save E tags (files w0 newFile) of
        Inl e \<Rightarrow> (Inl (ExternalError e), w0\<lparr>trace := trace w0 @ [ID3Save newFile]\<rparr>)
      | Inr c \<Rightarrow> (Inr (), \<lparr>files = (files w0)(newFile \<mapsto> c),
                           trace = trace w0 @ [ID3Save newFile]\<rparr>))"
    by (rule ID3_save_result)
next
  assume "id3_load E (files w originalFile) = Inr tags \<and>
    id3_load E (files w newFile) = Inr new_tags \<and>
    id3_delete E new_tags (files w newFile) = Inr c1 \<and>
    id3_save E tags (Some c1) = Inr c"
  then show "copyMetadata E originalFile newFile w =
        (Inr (),
         \<lparr>files = (files w)(newFile \<mapsto> c),
          trace = trace w @ [ID3Load originalFile, ID3Load newFile, ID3Delete newFile,
                             ID3Save newFile, Print (MetadataCopied originalFile newFile)]\<rparr>)"
    using copyMetadata_overwrites[of E w originalFile tags newFile new_tags c1 c] by blast
next
  assume "p \<noteq> newFile"
  then show "files (snd (copyMetadata E originalFile newFile w)) p = files w p"
    by (rule copyMetadata_frame)
next
  assume "id3_load E (files w originalFile) = Inr tags \<and>
    copyMetadata E originalFile newFile w = (Inr (), w')"
  then show "\<exists>c0 c. id3_save E tags c0 = Inr c \<and> files w' newFile = Some c"
    using copyMetadata_success[of E w originalFile tags newFile w'] by blast
next
  assume a: "id3_load E (files w originalFile) = Inr tags \<and>
    copyMetadata E originalFile newFile w = (Inr (), w')"
    and law: "\<forall>t c0 c. id3_save E t c0 = Inr c \<longrightarrow> id3_load E (Some c) = Inr t"
  from a copyMetadata_success[of E w originalFile tags newFile w']
  obtain c0 c where "id3_save E tags c0 = Inr c" "files w' newFile = Some c" by blast
  with law show "id3_load E (files w' newFile) = Inr tags" by metis
qed

lemma demo_roundtrip: "id3_save demo_env t c0 = Inr c \<Longrightarrow> id3_load demo_env (Some c) = Inr t"
  by (auto simp: demo_env_def split: option.splits prod.splits)

text \<open>
  C7 in the concrete environment: an original without tags, a new file without tags, a
  new file whose old tags are deleted and overwritten, an untouched original, and a tag
  library whose deletion fails.
\<close>

theorem copyMetadata_behaviour_witness:
  "copyMetadata demo_env ''bare.mp3'' ''new.mp3'' untagged_world =
     (Inl (ExternalError ''ID3NoHeaderError''),
      untagged_world\<lparr>trace := [ID3Load ''bare.mp3'']\<rparr>) \<and>
   fst (copyMetadata demo_env ''song.mp3'' ''new.mp3'' untagged_world) = Inr () \<and>
   copyMetadata demo_env ''song.mp3'' ''old.mp3'' untagged_world =
     (Inr (),
      \<lparr>files = (files untagged_world)(''old.mp3'' \<mapsto> (''old audio'', Some ''tags'')),
       trace = [ID3Load ''song.mp3'', ID3Load ''old.mp3'', ID3Delete ''old.mp3'',
                ID3Save ''old.mp3'', Print (MetadataCopied ''song.mp3'' ''old.mp3'')]\<rparr>) \<and>
   files (snd (copyMetadata demo_env ''song.mp3'' ''old.mp3'' untagged_world)) ''song.mp3''
     = Some (''mp3 audio'', Some ''tags'') \<and>
   id3_load demo_env (files (snd (copyMetadata demo_env ''song.mp3'' ''old.mp3'' untagged_world))
     ''old.mp3'') = Inr ''tags'' \<and>
   fst (copyMetadata locked_env ''song.mp3'' ''old.mp3'' untagged_world) = Inr ()"
proof -
  let ?w' = "snd (copyMetadata demo_env ''song.mp3'' ''old.mp3'' untagged_world)"
  have l1: "id3_load demo_env (files untagged_world ''bare.mp3'') = Inl ''ID3NoHeaderError''"
    and l2: "id3_load demo_env (files untagged_world ''song.mp3'') = Inr ''tags''"
    and l3: "id3_load demo_env (files untagged_world ''new.mp3'') = Inl ''ID3NoHeaderError''"
    and l4: "id3_load demo_env (files untagged_world ''old.mp3'') = Inr ''old tags''"
    and d: "id3_delete demo_env ''old tags'' (files untagged_world ''old.mp3'') = Inr (''old audio'', None)"
    and sv: "id3_save demo_env ''tags'' (Some (''old audio'', None)) = Inr (''old audio'', Some ''tags'')"
    and t: "trace untagged_world = []"
    and f: "files untagged_world ''song.mp3'' = Some (''mp3 audio'', Some ''tags'')"
    and n: "''song.mp3'' \<noteq> ''old.mp3''"
    by (simp_all add: demo_env_def untagged_world_def)
  have k2: "id3_load locked_env (files untagged_world ''song.mp3'') = Inr ''tags''"
    and k4: "id3_load locked_env (files untagged_world ''old.mp3'') = Inr ''old tags''"
    and kd: "id3_delete locked_env ''old tags'' (files untagged_world ''old.mp3'') = Inl ''PermissionError''"
    by (simp_all add: locked_env_def demo_env_def untagged_world_def)
  have law: "\<forall>t c0 c. id3_save demo_env t c0 = Inr c \<longrightarrow> id3_load demo_env (Some c) = Inr t"
    using demo_roundtrip by blast
  from copyMetadata_behaviour [of demo_env untagged_world "''bare.mp3''" "''ID3NoHeaderError''"
      "''new.mp3''" "''tags''" "''old tags''" "(''old audio'', None)" untagged_world
      "(''old audio'', Some ''tags'')" "''song.mp3''" ?w'] l1 t
  have a: "copyMetadata demo_env ''bare.mp3'' ''new.mp3'' untagged_world =
     (Inl (ExternalError ''ID3NoHeaderError''), untagged_world\<lparr>trace := [ID3Load ''bare.mp3'']\<rparr>)"
    by simp
  from copyMetadata_behaviour [of demo_env untagged_world "''song.mp3''" "''ID3NoHeaderError''"
      "''new.mp3''" "''tags''" "''old tags''" "(''old audio'', None)" untagged_world
      "(''old audio'', Some ''tags'')" "''song.mp3''" ?w'] l2 l3
  have "copyMetadata demo_env ''song.mp3'' ''new.mp3'' untagged_world =
        bind_io (ID3_save demo_env ''tags'' ''new.mp3'')
          (\<lambda>_. print (MetadataCopied ''song.mp3'' ''new.mp3''))
          (untagged_world\<lparr>trace := trace untagged_world @ [ID3Load ''song.mp3'', ID3Load ''new.mp3'']\<rparr>)"
    by blast
  then have b: "fst (copyMetadata demo_env ''song.mp3'' ''new.mp3'' untagged_world) = Inr ()"
    by (simp add: eval_defs untagged_world_def)
  note inst = copyMetadata_behaviour [of demo_env untagged_world "''song.mp3''" "''ID3NoHeaderError''"
      "''old.mp3''" "''tags''" "''old tags''" "(''old audio'', None)" untagged_world
      "(''old audio'', Some ''tags'')" "''song.mp3''" ?w']
  from inst l2 l4 d sv
  have c0: "copyMetadata demo_env ''song.mp3'' ''old.mp3'' untagged_world =
     (Inr (),
      \<lparr>files = (files untagged_world)(''old.mp3'' \<mapsto> (''old audio'', Some ''tags'')),
       trace = trace untagged_world @ [ID3Load ''song.mp3'', ID3Load ''old.mp3'', ID3Delete ''old.mp3'',
                ID3Save ''old.mp3'', Print (MetadataCopied ''song.mp3'' ''old.mp3'')]\<rparr>)"
    by blast
  then have c: "copyMetadata demo_env ''song.mp3'' ''old.mp3'' untagged_world =
     (Inr (),
      \<lparr>files = (files untagged_world)(''old.mp3'' \<mapsto> (''old audio'', Some ''tags'')),
       trace = [ID3Load ''song.mp3'', ID3Load ''old.mp3'', ID3Delete ''old.mp3'',
                ID3Save ''old.mp3'', Print (MetadataCopied ''song.mp3'' ''old.mp3'')]\<rparr>)"
    unfolding t by simp
  from c0 have ok: "copyMetadata demo_env ''song.mp3'' ''old.mp3'' untagged_world = (Inr (), ?w')"
    by simp
  from inst n f have fr: "files ?w' ''song.mp3'' = Some (''mp3 audio'', Some ''tags'')"
    by metis
  from inst l2 ok law have ld: "id3_load demo_env (files ?w' ''old.mp3'') = Inr ''tags''"
    by blast
  from copyMetadata_behaviour [of locked_env untagged_world "''song.mp3''" "''PermissionError''"
      "''old.mp3''" "''tags''" "''old tags''" "(''old audio'', None)" untagged_world
      "(''old audio'', Some ''tags'')" "''song.mp3''" ?w'] k2 k4 kd
  have "copyMetadata locked_env ''song.mp3'' ''old.mp3'' untagged_world =
        bind_io (ID3_save locked_env ''tags'' ''old.mp3'')
          (\<lambda>_. print (MetadataCopied ''song.mp3'' ''old.mp3''))
          (untagged_world\<lparr>trace := trace untagged_world
             @ [ID3Load ''song.mp3'', ID3Load ''old.mp3'', ID3Delete ''old.mp3'']\<rparr>)"
    by blast
  then have e: "fst (copyMetadata locked_env ''song.mp3'' ''old.mp3'' untagged_world) = Inr ()"
    by (simp add: eval_defs locked_env_def untagged_world_def)
  from a b c fr ld e show ?thesis by blast
qed

section \<open>The batch driver\<close>

lemma for_each_append:
  "for_each (xs @ ys) body = bind_io (for_each xs body) (\<lambda>_. for_each ys body)"
  by (induction xs) (simp_all add: bind_assoc)

lemma for_each_abort:
  assumes "for_each pre body w = (Inr (), w1)" and "body f w1 = (Inl e, w2)"
  shows "for_each (pre @ f # post) body w = (Inl e, w2)"
  using assms by (simp add: for_each_append bind_io_def)

lemma for_each_single:
  "body x w = (Inr (), w1) \<Longrightarrow> for_each [x] body w = (Inr (), w1)"
  by (simp add: bind_io_def return_io_def)

lemma script_listed:
  assumes "listdir E folder (files w) = Inr entries"
  shows "script E folder bpm w =
    for_each entries (\<lambda>file. main E bpm None (os_path_join folder file))
      (w\<lparr>trace := trace w @ [ListDir folder]\<rparr>)"
  using assms by (simp add: script_def os_listdir_def prim_defs)

text \<open>
  Claim C8. The batch driver lists the folder once and runs \<open>main\<close> on the entries in
  order: processing a listing \<open>pre @ post\<close> is processing \<open>pre\<close> to the end and then
  \<open>post\<close>, in the world \<open>pre\<close> left. When the entries before \<open>f\<close> succeed and \<open>main\<close>
  raises on \<open>f\<close>, the driver ends with that exception in the world \<open>main\<close> left at the
  failure: no entry after \<open>f\<close> is processed.
\<close>

theorem script_sequential_abort:
  "(listdir E folder (files w) = Inr (pre @ post) \<longrightarrow>
      script E folder bpm w =
        bind_io (for_each pre (\<lambda>file. main E bpm None (os_path_join folder file)))
          (\<lambda>_. for_each post (\<lambda>file. main E bpm None (os_path_join folder file)))
          (w\<lparr>trace := trace w @ [ListDir folder]\<rparr>)) \<and>
   (listdir E folder (files w) = Inr (pre @ f # post) \<and>
    for_each pre (\<lambda>file. main E bpm None (os_path_join folder file))
      (w\<lparr>trace := trace w @ [ListDir folder]\<rparr>) = (Inr (), w1) \<and>
    main E bpm None (os_path_join folder f) w1 = (Inl e, w2) \<longrightarrow>
      script E folder bpm w = (Inl e, w2))"
proof (intro conjI impI)
  assume "listdir E folder (files w) = Inr (pre @ post)"
  then show "script E folder bpm w =
        bind_io (for_each pre (\<lambda>file. main E bpm None (os_path_join folder file)))
          (\<lambda>_. for_each post (\<lambda>file. main E bpm None (os_path_join folder file)))
          (w\<lparr>trace := trace w @ [ListDir folder]\<rparr>)"
    by (simp add: script_listed for_each_append)
next
  assume a: "listdir E folder (files w) = Inr (pre @ f # post) \<and>
    for_each pre (\<lambda>file. main E bpm None (os_path_join folder file))
      (w\<lparr>trace := trace w @ [ListDir folder]\<rparr>) = (Inr (), w1) \<and>
    main E bpm None (os_path_join folder f) w1 = (Inl e, w2)"
  then have "script E folder bpm w =
      for_each (pre @ f # post) (\<lambda>file. main E bpm None (os_path_join folder file))
        (w\<lparr>trace := trace w @ [ListDir folder]\<rparr>)"
    by (simp add: script_listed)
  also from a have "\<dots> = (Inl e, w2)"
    by (intro for_each_abort[where ?w1.0 = w1]) simp_all
  finally show "script E folder bpm w = (Inl e, w2)" .
qed

lemma out_a: "outputSong_of 128 ''music/a.mp3'' = ''music/a_128BPM.mp3''"
  by code_simp
lemma out_b: "outputSong_of 128 ''music/b.mp3'' = ''music/b_128BPM.mp3''"
  by code_simp
lemma join_a: "os_path_join ''music'' ''a.mp3'' = ''music/a.mp3''"
  by (simp add: os_path_join_def endswith_def)
lemma join_b: "os_path_join ''music'' ''b.mp3'' = ''music/b.mp3''"
  by (simp add: os_path_join_def endswith_def)

text \<open>
  C8 in the concrete environment: three entries, the second unreadable.
\<close>

theorem script_sequential_abort_witness:
  "script demo_env ''music'' 128 batch_world =
     bind_io (for_each [''a.mp3''] (\<lambda>file. main demo_env 128 None (os_path_join ''music'' file)))
       (\<lambda>_. for_each [''b.mp3'', ''c.mp3'']
              (\<lambda>file. main demo_env 128 None (os_path_join ''music'' file)))
       (batch_world\<lparr>trace := trace batch_world @ [ListDir ''music'']\<rparr>) \<and>
   script demo_env ''music'' 128 batch_world =
     (Inl (ExternalError ''FileNotFoundError''),
      snd (main demo_env 128 None ''music/b.mp3''
            (snd (main demo_env 128 None ''music/a.mp3''
                   (batch_world\<lparr>trace := trace batch_world @ [ListDir ''music'']\<rparr>)))))"
proof -
  let ?body = "\<lambda>file. main demo_env 128 None (os_path_join ''music'' file)"
  let ?w0 = "batch_world\<lparr>trace := trace batch_world @ [ListDir ''music'']\<rparr>"
  let ?w1 = "snd (main demo_env 128 None ''music/a.mp3'' ?w0)"
  let ?w2 = "snd (main demo_env 128 None ''music/b.mp3'' ?w1)"
  have l: "listdir demo_env ''music'' (files batch_world) = Inr ([''a.mp3''] @ [''b.mp3'', ''c.mp3''])"
    "listdir demo_env ''music'' (files batch_world) = Inr ([''a.mp3''] @ ''b.mp3'' # [''c.mp3''])"
    by (simp_all add: demo_env_def)
  have "fst (main demo_env 128 None ''music/a.mp3'' ?w0) = Inr ()"
    by (simp add: out_a eval_defs batch_world_def)
  then have "main demo_env 128 None ''music/a.mp3'' ?w0 = (Inr (), ?w1)"
    by (metis prod.collapse)
  then have "?body ''a.mp3'' ?w0 = (Inr (), ?w1)"
    unfolding join_a .
  then have pre: "for_each [''a.mp3''] ?body ?w0 = (Inr (), ?w1)"
    by (rule for_each_single)
  have "fst (main demo_env 128 None ''music/b.mp3'' ?w1) = Inl (ExternalError ''FileNotFoundError'')"
    by (simp add: out_a out_b eval_defs batch_world_def)
  then have "main demo_env 128 None ''music/b.mp3'' ?w1 = (Inl (ExternalError ''FileNotFoundError''), ?w2)"
    by (metis prod.collapse)
  then have f: "main demo_env 128 None (os_path_join ''music'' ''b.mp3'') ?w1
      = (Inl (ExternalError ''FileNotFoundError''), ?w2)"
    unfolding join_b .
  from script_sequential_abort [of demo_env "''music''" batch_world "[''a.mp3'']"
      "[''b.mp3'', ''c.mp3'']" 128 "''b.mp3''" ?w1 "ExternalError ''FileNotFoundError''" ?w2] l(1)
  have a: "script demo_env ''music'' 128 batch_world =
     bind_io (for_each [''a.mp3''] ?body) (\<lambda>_. for_each [''b.mp3'', ''c.mp3''] ?body) ?w0"
    by blast
  from script_sequential_abort [of demo_env "''music''" batch_world "[''a.mp3'']"
      "[''c.mp3'']" 128 "''b.mp3''" ?w1 "ExternalError ''FileNotFoundError''" ?w2] l(2) pre f
  have b: "script demo_env ''music'' 128 batch_world = (Inl (ExternalError ''FileNotFoundError''), ?w2)"
    by blast
  from a b show ?thesis by blast
qed

section \<open>The output file name\<close>

lemma str_replace_nonempty:
  "old \<noteq> [] \<Longrightarrow> str_replace old new [] = []"
  "old \<noteq> [] \<Longrightarrow> take (length old) (c # cs) = old \<Longrightarrow>
     str_replace old new (c # cs) = new @ str_replace old new (drop (length old) (c # cs))"
  "old \<noteq> [] \<Longrightarrow> take (length old) (c # cs) \<noteq> old \<Longrightarrow>
     str_replace old new (c # cs) = c # str_replace old new cs"
  by (subst str_replace.simps, simp)+

lemma str_replace_absent:
  "old \<noteq> [] \<Longrightarrow> \<not> contains old s \<Longrightarrow> str_replace old new s = s"
  by (induction s) (auto simp: str_replace_nonempty)

lemma mp3_not_prefix:
  assumes "\<not> contains ''.mp3'' (c # cs)"
  shows "take 4 ((c # cs) @ ''.mp3'') \<noteq> ''.mp3''"
proof
  assume a: "take 4 ((c # cs) @ ''.mp3'') = ''.mp3''"
  have l4: "length ''.mp3'' = 4" by simp
  from assms have "take (length ''.mp3'') (c # cs) \<noteq> ''.mp3''"
    by (simp only: contains.simps) blast
  then have n: "take 4 (c # cs) \<noteq> ''.mp3''" unfolding l4 .
  show False
  proof (cases "length cs \<ge> 3")
    case True
    then have "take 4 ((c # cs) @ ''.mp3'') = take 4 (c # cs)" by simp
    with a n show False by simp
  next
    case False
    then consider "cs = []" | x where "cs = [x]" | x y where "cs = [x, y]"
      by (cases cs; cases "tl cs"; cases "tl (tl cs)") auto
    then show False using a by cases auto
  qed
qed

lemma str_replace_suffix:
  "\<not> contains ''.mp3'' name \<Longrightarrow> str_replace ''.mp3'' new (name @ ''.mp3'') = name @ new"
proof (induction name)
  case Nil
  have "str_replace ''.mp3'' new ''.mp3'' = new @ str_replace ''.mp3'' new []"
    by (subst str_replace.simps) simp
  then show ?case by (simp add: str_replace_nonempty)
next
  case (Cons c cs)
  have l4: "length ''.mp3'' = 4" by simp
  from Cons.prems have "take 4 ((c # cs) @ ''.mp3'') \<noteq> ''.mp3''" by (rule mp3_not_prefix)
  then have "take (length ''.mp3'') (c # (cs @ ''.mp3'')) \<noteq> ''.mp3''"
    by (simp add: eval_nat_numeral)
  moreover have "''.mp3'' \<noteq> []" by simp
  ultimately have "str_replace ''.mp3'' new (c # (cs @ ''.mp3'')) = c # str_replace ''.mp3'' new (cs @ ''.mp3'')"
    by (rule str_replace_nonempty(3)[rotated])
  with Cons show ?case by simp
qed

text \<open>
  Where the code does what is intended: for an input \<^verbatim>\<open>name.mp3\<close> whose \<open>name\<close>
  (folder included) contains no \<^verbatim>\<open>.mp3\<close>, the output name is \<^verbatim>\<open>name_<BPM>BPM.mp3\<close>;
  for a path that contains no \<^verbatim>\<open>.mp3\<close> at all, it is the input name.
\<close>

lemma outputSong_of_clean_name:
  "(\<not> contains ''.mp3'' name \<longrightarrow>
      outputSong_of bpm (name @ ''.mp3'') = name @ ''_'' @ str_int bpm @ ''BPM'' @ ''.mp3'') \<and>
   (\<not> contains ''.mp3'' s \<longrightarrow> outputSong_of bpm s = s)"
  by (simp add: outputSong_of_def str_replace_suffix str_replace_absent)

text \<open>
  Claim C5 at the inputs where the code misses it. The name is derived with
  \<^verbatim>\<open>str.replace\<close>, which rewrites every \<^verbatim>\<open>.mp3\<close> in the path and not the extension.
  For the entry \<^verbatim>\<open>song.mp3\<close> of the folder \<^verbatim>\<open>my.mp3s\<close> the output is not the sibling
  \<^verbatim>\<open>my.mp3s/song_128BPM.mp3\<close> but a path in another folder; the input \<^verbatim>\<open>a.mp3.mp3\<close>
  does not give \<^verbatim>\<open>a.mp3_128BPM.mp3\<close>; and the non-mp3 input \<^verbatim>\<open>track.mp3.wav\<close> is
  renamed instead of left as it is.
\<close>

theorem outputSong_of_substring_slip:
  "os_path_join ''my.mp3s'' ''song.mp3'' = ''my.mp3s/song.mp3'' \<and>
   outputSong_of 128 ''my.mp3s/song.mp3'' = ''my_128BPM.mp3s/song_128BPM.mp3'' \<and>
   outputSong_of 128 ''a.mp3.mp3'' = ''a_128BPM.mp3_128BPM.mp3'' \<and>
   outputSong_of 128 ''track.mp3.wav'' = ''track_128BPM.mp3.wav''"
  by code_simp

section \<open>The original input file\<close>

lemma out_wav: "outputSong_of 128 ''song.wav'' = ''song.wav''"
  by code_simp

text \<open>
  Claim C4 at a non-mp3 input. For \<^verbatim>\<open>song.wav\<close> the derived output name is the input
  name itself, so \<open>changeBPM\<close> takes its rename branch and moves the stretched audio
  onto the original: after \<open>main\<close> the file \<^verbatim>\<open>song.wav\<close> holds the stretched audio and
  its tags are gone. The original is not left untouched and no new file is written.
\<close>

theorem main_overwrites_non_mp3_input:
  "outputSong_of 128 ''song.wav'' = ''song.wav'' \<and>
   files demo_world ''song.wav'' = Some (''wav audio'', Some ''tags'') \<and>
   files (snd (main demo_env 128 None ''song.wav'' demo_world)) ''song.wav''
     = Some (''stretched wav audio'', None) \<and>
   Rename ''TemporalOut.wav'' ''song.wav''
     \<in> set (trace (snd (main demo_env 128 None ''song.wav'' demo_world)))"
  by (simp add: out_wav eval_defs)

end
